theory Spec2Isabelle
  imports Complex_Main
begin

section \<open>JavaScript values\<close>

text \<open>
  A \<open>Date\<close> is its \<open>getTime()\<close> value, milliseconds since the epoch. A JavaScript
  \<open>number\<close> that holds a database integer is an \<open>int\<close>; one that holds a quotient
  is a \<open>rat\<close> (exact arithmetic), and one that was read from a query string is a
  \<open>jsnum\<close>, below. A property that may be \<open>undefined\<close> or \<open>null\<close> is an \<open>option\<close>, and
  \<open>None\<close> stands for both.
\<close>

type_synonym timestamp = int

text \<open>A template literal or a console line is the list of its parts.\<close>

datatype part = S string | N int

type_synonym message = "part list"

text \<open>
  \<open>Error m\<close> is \<open>throw new Error(m)\<close> of the code itself; \<open>Thrown what\<close> is an exception
  raised by the runtime or by a collaborator (a rejected \<open>fetch\<close>, a body that is not
  JSON, \<open>new URL\<close> on a malformed string, a failing settings store).
\<close>

datatype error = Error message | Thrown string | UsageLimitError message int

text \<open>Truthiness of an optional string: \<open>undefined\<close>, \<open>null\<close> and \<open>''\<close> are falsy.\<close>

definition truthy :: "string option \<Rightarrow> bool" where
  "truthy v = (case v of None \<Rightarrow> False | Some s \<Rightarrow> s \<noteq> [])"

text \<open>\<open>x || d\<close> on an optional string.\<close>

definition orElse :: "string option \<Rightarrow> string \<Rightarrow> string" where
  "orElse v d = (case v of None \<Rightarrow> d | Some s \<Rightarrow> if s = [] then d else s)"

definition Math_round :: "rat \<Rightarrow> int" where
  "Math_round x = \<lfloor>x + 1 / 2\<rfloor>"

definition Math_ceil :: "rat \<Rightarrow> int" where
  "Math_ceil x = \<lceil>x\<rceil>"

text \<open>
  A number that comes from \<open>parseFloat\<close> may be \<open>NaN\<close> or an infinity: \<open>NonFinite\<close>
  stands for the three. \<open>toCents x\<close> is \<open>Math.round(x * 100)\<close>, which is a number the
  database can read as an integer only for a finite \<open>x\<close>; the product is exact here
  where the code's is rounded to a double.
\<close>

datatype jsnum = Finite rat | NonFinite

definition toCents :: "jsnum \<Rightarrow> int option" where
  "toCents x = (case x of Finite r \<Rightarrow> Some (Math_round (r * 100)) | NonFinite \<Rightarrow> None)"

section \<open>Database schema\<close>

text \<open>
  The tables of \<open>db/schema\<close> that the billing code reads and writes, a row as a record
  and a table as the list of its rows in the order the database returns them. A
  nullable column is an \<open>option\<close>. Columns that none of the embedded functions reads or
  writes are left out of \<open>user\<close>, \<open>payment\<close> and \<open>usageRow\<close>. The statements of
  \<open>handlePaymentSuccess\<close> fail as the schema makes them fail: an \<open>integer\<close> column
  holds 32 bits, \<open>stripePriceId\<close> is \<open>NOT NULL\<close>, \<open>id\<close> and \<open>stripeSubscriptionId\<close> are
  unique, and \<open>userId\<close> references a user. Every other statement succeeds: connection
  failures are outside the model, and so are constraint violations of the plan forms.
\<close>

definition int32 :: "int \<Rightarrow> bool" where
  "int32 n = (- 2147483648 \<le> n \<and> n \<le> 2147483647)"

record user =
  user_id :: string
  user_name :: "string option"
  user_email :: "string option"
  user_subscriptionStatus :: "string option"
  user_planTier :: "string option"

record pricingPlan =
  plan_id :: string
  plan_name :: string
  plan_tier :: string
  plan_stripePriceId :: string
  plan_priceAmount :: int
  plan_priceAmountBdt :: "int option"
  plan_currency :: string
  plan_billingInterval :: string
  plan_textGenerationLimit :: "int option"
  plan_imageGenerationLimit :: "int option"
  plan_videoGenerationLimit :: "int option"
  plan_audioGenerationLimit :: "int option"
  plan_features :: "string list"
  plan_isActive :: bool
  plan_createdAt :: timestamp
  plan_updatedAt :: timestamp

record subscription =
  sub_id :: string
  sub_userId :: string
  sub_stripeSubscriptionId :: string
  sub_stripePriceId :: string
  sub_planTier :: string
  sub_previousPlanTier :: "string option"
  sub_status :: string
  sub_currentPeriodStart :: timestamp
  sub_currentPeriodEnd :: timestamp
  sub_cancelAtPeriodEnd :: bool
  sub_canceledAt :: "timestamp option"
  sub_endedAt :: "timestamp option"
  sub_planChangedAt :: "timestamp option"
  sub_paymentProvider :: string
  sub_opayTransactionId :: "string option"
  sub_renewalRequired :: "bool option"
  sub_lastPaymentAmount :: "int option"
  sub_renewalReminderSentAt :: "timestamp option"
  sub_createdAt :: timestamp
  sub_updatedAt :: timestamp

record payment =
  pay_id :: string
  pay_userId :: "string option"
  pay_subscriptionId :: "string option"
  pay_amount :: int
  pay_currency :: string
  pay_status :: string
  pay_description :: "string option"
  pay_paidAt :: "timestamp option"
  pay_paymentProvider :: string
  pay_opayTransactionId :: "string option"
  pay_opayPaymentMethod :: "string option"
  pay_opayPaymentFee :: "int option"
  pay_createdAt :: timestamp

record usageRow =
  usage_userId :: string
  usage_month :: int
  usage_year :: int
  usage_textGenerationCount :: int
  usage_imageGenerationCount :: int
  usage_videoGenerationCount :: int
  usage_audioGenerationCount :: int

section \<open>The world a request handler runs in\<close>

datatype level = Log | Warn | Err

text \<open>The metadata of a payment, with the fields that \<open>OpayVerificationResult\<close> declares.
  It is decoded JSON, so every field may be missing.\<close>

record metaFields =
  m_userId :: "string option"
  m_planId :: "string option"
  m_priceId :: "string option"
  m_planTier :: "string option"
  m_originalAmountCents :: "int option"
  m_billingInterval :: "string option"

text \<open>
  What the \<open>metadata\<close> property of a verification response can hold: nothing, a
  string (the JSON text the gateway sends, or a text that did not parse), or an
  object. Any other JSON value answers \<open>undefined\<close> to both guarded properties, as
  an object without them does.
\<close>

datatype metadata = MetaMissing | MetaString string | MetaObject metaFields

record createBody =
  cus_name :: string
  cus_email :: "string option"
  amount :: rat
  success_url :: string
  cancel_url :: string
  webhook_url :: string
  meta_data :: metaFields

type_synonym headers = "(string \<times> string) list"

datatype request =
  FetchCreate headers createBody
| FetchVerify headers string
| StripeCheckout string string string string

record 'd response =
  resp_ok :: bool
  resp_status :: int
  resp_text :: string
  resp_json :: "error + 'd"

text \<open>The reply to a payment creation is decoded JSON as well: \<open>c_status\<close> is the
  truthiness of its \<open>status\<close>, and its \<open>message\<close> and \<open>payment_url\<close> may be missing.\<close>

record createData =
  c_status :: bool
  c_message :: "string option"
  c_payment_url :: "string option"

record verifyData =
  v_status :: string
  v_cus_name :: string
  v_cus_email :: string
  v_amount :: string
  v_transaction_id :: string
  v_payment_method :: string
  v_metadata :: metadata

record opaySettings =
  apiKey :: "string option"

text \<open>
  Everything a handler reads from outside the database: clocks, fresh identifiers,
  the settings store (not part of this snapshot of the repository), the JavaScript
  built-ins whose result depends on the platform, and the answers of the gateway.
  \<open>ADMIN_SAVE_DISABLED\<close> is the text of \<open>DEMO_MODE_MESSAGES.ADMIN_SAVE_DISABLED\<close>.
  \<open>Date_plusYear\<close> is \<open>d.setFullYear(d.getFullYear() + 1)\<close> and \<open>Date_plusMonth\<close> is
  \<open>d.setMonth(d.getMonth() + 1)\<close>, both in the server's time zone. \<open>JSON_parse\<close>
  answers \<open>None\<close> where \<open>JSON.parse\<close> throws, \<open>URL_origin\<close> where \<open>new URL\<close> does, and
  \<open>parseInt\<close> where the built-in answers \<open>NaN\<close>. \<open>Date_month\<close> and \<open>Date_year\<close> read
  the calendar month and year of a date.
\<close>

record env =
  clock_now :: timestamp
  db_now :: timestamp
  randomUUID_subscription :: string
  randomUUID_payment :: string
  randomUUID_plan :: string
  getActivePaymentProvider :: string
  getOpaySettings :: "error + opaySettings"
  isDemoModeEnabled :: bool
  ADMIN_SAVE_DISABLED :: string
  Date_plusYear :: "timestamp \<Rightarrow> timestamp"
  Date_plusMonth :: "timestamp \<Rightarrow> timestamp"
  Date_month :: "timestamp \<Rightarrow> int"
  Date_year :: "timestamp \<Rightarrow> int"
  URL_origin :: "string \<Rightarrow> string option"
  JSON_parse :: "string \<Rightarrow> metadata option"
  parseInt :: "string \<Rightarrow> int option"
  fetch_create :: "headers \<Rightarrow> createBody \<Rightarrow> error + createData response"
  fetch_verify :: "headers \<Rightarrow> string \<Rightarrow> error + verifyData response"

record world =
  users :: "user list"
  subscriptions :: "subscription list"
  pricingPlans :: "pricingPlan list"
  paymentHistory :: "payment list"
  usageTracking :: "usageRow list"
  console :: "(level \<times> message) list"
  requests :: "request list"

definition console_out :: "level \<Rightarrow> message \<Rightarrow> world \<Rightarrow> world" where
  "console_out l m w = w\<lparr>console := console w @ [(l, m)]\<rparr>"

definition send :: "request \<Rightarrow> world \<Rightarrow> world" where
  "send r w = w\<lparr>requests := requests w @ [r]\<rparr>"

text \<open>An \<open>async\<close> function: it ends with a value or an exception, in a new world.\<close>

type_synonym 'a action = "world \<Rightarrow> (error + 'a) \<times> world"

section \<open>OpayService (lib/server/opaybd.ts)\<close>

definition getHeaders :: "env \<Rightarrow> error + headers" where
  "getHeaders e =
     (case getOpaySettings e of
        Inl err \<Rightarrow> Inl err
      | Inr settings \<Rightarrow>
          (case apiKey settings of
             None \<Rightarrow> Inl (Error [S ''Opaybd credentials not configured. Please configure them in Admin > Payment Methods.''])
           | Some k \<Rightarrow>
               if k = [] then Inl (Error [S ''Opaybd credentials not configured. Please configure them in Admin > Payment Methods.''])
               else Inr [(''Content-Type'', ''application/json''), (''API-KEY'', k)]))"

definition verifyPayment :: "env \<Rightarrow> string \<Rightarrow> verifyData action" where
  "verifyPayment e transactionId w =
     (case getHeaders e of
        Inl err \<Rightarrow> (Inl err, w)
      | Inr hs \<Rightarrow>
          (let w1 = send (FetchVerify hs transactionId) w in
           case fetch_verify e hs transactionId of
             Inl err \<Rightarrow> (Inl err, w1)
           | Inr response \<Rightarrow>
               if \<not> resp_ok response then
                 (Inl (Error [S ''Opaybd API error: '', N (resp_status response)]),
                  console_out Err [S ''Opaybd verify payment error:'', S (resp_text response)] w1)
               else
                 (case resp_json response of
                    Inl err \<Rightarrow> (Inl err, w1)
                  | Inr data \<Rightarrow>
                      (case v_metadata data of
                         MetaString s \<Rightarrow>
                           (case JSON_parse e s of
                              Some m \<Rightarrow> (Inr (data\<lparr>v_metadata := m\<rparr>), w1)
                            | None \<Rightarrow>
                                (Inr data, console_out Err [S ''Failed to parse metadata:'', S s] w1))
                       | _ \<Rightarrow> (Inr data, w1)))))"

text \<open>\<open>metadata?.userId\<close> and \<open>metadata?.planTier\<close>: a string has neither property.\<close>

definition meta_userId :: "metadata \<Rightarrow> string option" where
  "meta_userId m = (case m of MetaObject f \<Rightarrow> m_userId f | _ \<Rightarrow> None)"

definition meta_planTier :: "metadata \<Rightarrow> string option" where
  "meta_planTier m = (case m of MetaObject f \<Rightarrow> m_planTier f | _ \<Rightarrow> None)"

record callbackParams =
  cb_transactionId :: string
  cb_paymentMethod :: string
  cb_paymentAmount :: jsnum
  cb_paymentFee :: jsnum
  cb_status :: string

definition isOpaySubscriptionOf :: "string \<Rightarrow> subscription \<Rightarrow> bool" where
  "isOpaySubscriptionOf userId s = (sub_userId s = userId \<and> sub_paymentProvider s = ''opaybd'')"

text \<open>The two branches of the upsert, and the two statements after it. A property
  that is \<open>undefined\<close> is left out of the \<open>set\<close> of an update: the column keeps its value.\<close>

definition updateExistingSubscription ::
  "timestamp \<Rightarrow> timestamp \<Rightarrow> callbackParams \<Rightarrow> metaFields \<Rightarrow> string \<Rightarrow> int \<Rightarrow> subscription \<Rightarrow>
   subscription \<Rightarrow> subscription" where
  "updateExistingSubscription now periodEnd params f planTier amountCents existingSub s =
     (if sub_id s = sub_id existingSub then
        s\<lparr>sub_stripePriceId := (case m_priceId f of Some p \<Rightarrow> p | None \<Rightarrow> sub_stripePriceId s),
          sub_planTier := planTier,
          sub_previousPlanTier := Some (sub_planTier existingSub),
          sub_status := ''active'',
          sub_currentPeriodStart := now,
          sub_currentPeriodEnd := periodEnd,
          sub_renewalRequired := Some False,
          sub_opayTransactionId := Some (cb_transactionId params),
          sub_lastPaymentAmount := Some amountCents,
          sub_planChangedAt :=
            (if sub_planTier existingSub \<noteq> planTier then Some now else sub_planChangedAt existingSub),
          sub_updatedAt := now\<rparr>
      else s)"

definition newSubscription ::
  "env \<Rightarrow> timestamp \<Rightarrow> timestamp \<Rightarrow> callbackParams \<Rightarrow> metaFields \<Rightarrow> string \<Rightarrow> string \<Rightarrow> int \<Rightarrow>
   subscription" where
  "newSubscription e now periodEnd params f userId planTier amountCents =
     \<lparr>sub_id = randomUUID_subscription e,
      sub_userId = userId,
      sub_stripeSubscriptionId = ''opay_'' @ cb_transactionId params,
      sub_stripePriceId = (case m_priceId f of Some p \<Rightarrow> p | None \<Rightarrow> []),
      sub_planTier = planTier,
      sub_previousPlanTier = None,
      sub_status = ''active'',
      sub_currentPeriodStart = now,
      sub_currentPeriodEnd = periodEnd,
      sub_cancelAtPeriodEnd = False,
      sub_canceledAt = None,
      sub_endedAt = None,
      sub_planChangedAt = None,
      sub_paymentProvider = ''opaybd'',
      sub_opayTransactionId = Some (cb_transactionId params),
      sub_renewalRequired = Some False,
      sub_lastPaymentAmount = Some amountCents,
      sub_renewalReminderSentAt = None,
      sub_createdAt = db_now e,
      sub_updatedAt = db_now e\<rparr>"

definition activateUser :: "string \<Rightarrow> string \<Rightarrow> user \<Rightarrow> user" where
  "activateUser userId planTier u =
     (if user_id u = userId then
        u\<lparr>user_subscriptionStatus := Some ''active'', user_planTier := Some planTier\<rparr>
      else u)"

definition newPayment ::
  "env \<Rightarrow> timestamp \<Rightarrow> callbackParams \<Rightarrow> string \<Rightarrow> string \<Rightarrow> int \<Rightarrow> int \<Rightarrow> subscription option \<Rightarrow>
   payment" where
  "newPayment e now params userId planTier amountCents feeCents subscription =
     \<lparr>pay_id = randomUUID_payment e,
      pay_userId = Some userId,
      pay_subscriptionId =
        (case subscription of
           None \<Rightarrow> None
         | Some s \<Rightarrow> if sub_id s = [] then None else Some (sub_id s)),
      pay_amount = amountCents,
      pay_currency = ''bdt'',
      pay_status = ''succeeded'',
      pay_description = Some (''Subscription payment for '' @ planTier @ '' plan''),
      pay_paidAt = Some now,
      pay_paymentProvider = ''opaybd'',
      pay_opayTransactionId = Some (cb_transactionId params),
      pay_opayPaymentMethod = Some (cb_paymentMethod params),
      pay_opayPaymentFee = Some feeCents,
      pay_createdAt = db_now e\<rparr>"

text \<open>The subscription period ends one year or one month after \<open>now\<close>.\<close>

definition periodEnd :: "env \<Rightarrow> metaFields \<Rightarrow> timestamp" where
  "periodEnd e f =
     (if m_billingInterval f = Some ''year'' then Date_plusYear e (clock_now e)
      else Date_plusMonth e (clock_now e))"

text \<open>What a statement that the database rejects throws.\<close>

definition databaseError :: error where
  "databaseError = Thrown ''DatabaseError''"

text \<open>
  The statements after the upsert: the user is updated, the subscription is selected
  again for its id, and the payment is inserted. The insert is rejected when the fee
  is no 32-bit integer, when no user has the id, or when the new id is taken; the
  two updates before it have happened by then.
\<close>

definition recordPayment ::
  "env \<Rightarrow> callbackParams \<Rightarrow> string \<Rightarrow> string \<Rightarrow> int \<Rightarrow> unit action" where
  "recordPayment e params userId planTier amountCents w1 =
     (let now = clock_now e;
          w2 = w1\<lparr>users := map (activateUser userId planTier) (users w1)\<rparr>;
          subscription = find (isOpaySubscriptionOf userId) (subscriptions w2)
      in case toCents (cb_paymentFee params) of
           None \<Rightarrow> (Inl databaseError, w2)
         | Some feeCents \<Rightarrow>
             if \<not> int32 feeCents
                \<or> userId \<notin> set (map user_id (users w2))
                \<or> randomUUID_payment e \<in> set (map pay_id (paymentHistory w2)) then
               (Inl databaseError, w2)
             else
               (Inr (),
                console_out Log [S ''Successfully processed Opaybd payment for user:'', S userId]
                  (w2\<lparr>paymentHistory :=
                        paymentHistory w2
                        @ [newPayment e now params userId planTier amountCents feeCents subscription]\<rparr>)))"

text \<open>
  Everything after the two guards of \<open>handlePaymentSuccess\<close>, for metadata whose
  \<open>userId\<close> and \<open>planTier\<close> are the given non-empty strings. Neither select has an
  \<open>ORDER BY\<close>: the row taken is the first that matches in the order of the table, which
  is the row the database returns whenever at most one row matches. The upsert is
  rejected, before anything is written, when the amount is no 32-bit integer; the
  insert also when the metadata has no \<open>priceId\<close>, when no user has the id, or when
  the new id or the new \<open>stripeSubscriptionId\<close> is taken.
\<close>

definition creditSubscription ::
  "env \<Rightarrow> callbackParams \<Rightarrow> metaFields \<Rightarrow> string \<Rightarrow> string \<Rightarrow> unit action" where
  "creditSubscription e params f userId planTier w =
     (let now = clock_now e;
          pEnd = periodEnd e f;
          existing = find (isOpaySubscriptionOf userId) (subscriptions w)
      in case toCents (cb_paymentAmount params) of
           None \<Rightarrow> (Inl databaseError, w)
         | Some amountCents \<Rightarrow>
             if \<not> int32 amountCents then (Inl databaseError, w)
             else
               (case existing of
                  Some existingSub \<Rightarrow>
                    recordPayment e params userId planTier amountCents
                      (console_out Log [S ''Updated existing Opaybd subscription:'', S (sub_id existingSub)]
                         (w\<lparr>subscriptions :=
                              map (updateExistingSubscription now pEnd params f planTier amountCents
                                     existingSub)
                                (subscriptions w)\<rparr>))
                | None \<Rightarrow>
                    if m_priceId f = None
                       \<or> userId \<notin> set (map user_id (users w))
                       \<or> randomUUID_subscription e \<in> set (map sub_id (subscriptions w))
                       \<or> ''opay_'' @ cb_transactionId params
                            \<in> set (map sub_stripeSubscriptionId (subscriptions w)) then
                      (Inl databaseError, w)
                    else
                      recordPayment e params userId planTier amountCents
                        (console_out Log [S ''Created new Opaybd subscription for user:'', S userId]
                           (w\<lparr>subscriptions :=
                                subscriptions w
                                @ [newSubscription e now pEnd params f userId planTier amountCents]\<rparr>))))"

definition handlePaymentSuccess :: "env \<Rightarrow> callbackParams \<Rightarrow> unit action" where
  "handlePaymentSuccess e params w =
     (let w0 = console_out Log [S ''Processing Opaybd payment success:'', S (cb_transactionId params)] w
      in case verifyPayment e (cb_transactionId params) w0 of
           (Inl err, w1) \<Rightarrow> (Inl err, w1)
         | (Inr verification, w1) \<Rightarrow>
             if v_status verification \<noteq> ''COMPLETED'' then
               (Inl (Error [S (''Payment not completed. Status: '' @ v_status verification)]), w1)
             else if \<not> truthy (meta_userId (v_metadata verification))
                     \<or> \<not> truthy (meta_planTier (v_metadata verification)) then
               (Inl (Error [S ''Invalid payment metadata'']), w1)
             else
               (case v_metadata verification of
                  MetaObject f \<Rightarrow>
                    creditSubscription e params f (orElse (m_userId f) []) (orElse (m_planTier f) []) w1
                | _ \<Rightarrow> (Inl (Error [S ''Invalid payment metadata'']), w1)))"

text \<open>\<open>s.split(sep)[0]\<close>: the text before the first occurrence of a non-empty separator.\<close>

fun splitHead :: "string \<Rightarrow> string \<Rightarrow> string" where
  "splitHead sep [] = []"
| "splitHead sep (c # cs) = (if take (length sep) (c # cs) = sep then [] else c # splitHead sep cs)"

record paymentCreateParams =
  p_userId :: string
  p_planId :: string
  p_priceId :: string
  p_successUrl :: string
  p_cancelUrl :: string

text \<open>\<open>user.name || user.email?.split('@')[0] || 'Customer'\<close>\<close>

definition customerName :: "user \<Rightarrow> string" where
  "customerName u =
     orElse (user_name u) (orElse (map_option (splitHead ''@'') (user_email u)) ''Customer'')"

text \<open>The body of the payment-creation request, for the amount to charge and the origin
  of the success URL. \<open>meta_data\<close> stands for its \<open>JSON.stringify\<close>.\<close>

definition createBodyOf ::
  "user \<Rightarrow> pricingPlan \<Rightarrow> paymentCreateParams \<Rightarrow> string \<Rightarrow> rat \<Rightarrow> createBody" where
  "createBodyOf u plan params origin amt =
     \<lparr>cus_name = customerName u,
      cus_email = user_email u,
      amount = amt,
      success_url = p_successUrl params,
      cancel_url = p_cancelUrl params,
      webhook_url = origin @ ''/api/opaybd/webhook'',
      meta_data =
        \<lparr>m_userId = Some (p_userId params),
         m_planId = Some (p_planId params),
         m_priceId = Some (p_priceId params),
         m_planTier = Some (plan_tier plan),
         m_originalAmountCents = Some (plan_priceAmount plan),
         m_billingInterval = Some (plan_billingInterval plan)\<rparr>\<rparr>"

text \<open>The amounts of the payment-creation requests among the requests sent.\<close>

fun sentAmounts :: "request list \<Rightarrow> rat list" where
  "sentAmounts [] = []"
| "sentAmounts (FetchCreate hs b # rs) = amount b # sentAmounts rs"
| "sentAmounts (FetchVerify hs t # rs) = sentAmounts rs"
| "sentAmounts (StripeCheckout u p s c # rs) = sentAmounts rs"

definition createPayment :: "env \<Rightarrow> paymentCreateParams \<Rightarrow> createData action" where
  "createPayment e params w =
     (case find (\<lambda>u. user_id u = p_userId params) (users w) of
        None \<Rightarrow> (Inl (Error [S ''User not found'']), w)
      | Some u \<Rightarrow>
          (case find (\<lambda>p. plan_id p = p_planId params) (pricingPlans w) of
             None \<Rightarrow> (Inl (Error [S ''Pricing plan not found'']), w)
           | Some plan \<Rightarrow>
               (let (amt, w1) =
                      (case plan_priceAmountBdt plan of
                         Some bdt \<Rightarrow> (of_int bdt / 100, w)
                       | None \<Rightarrow>
                           (of_int (plan_priceAmount plan) / 100,
                            console_out Warn
                              [S (''Plan '' @ plan_name plan @ '' ('' @ plan_tier plan
                                  @ '') has no BDT price configured. Using USD amount as fallback.'')]
                              w))
                in case getHeaders e of
                     Inl err \<Rightarrow> (Inl err, w1)
                   | Inr hs \<Rightarrow>
                       (case URL_origin e (p_successUrl params) of
                          None \<Rightarrow> (Inl (Thrown ''TypeError: Invalid URL''), w1)
                        | Some origin \<Rightarrow>
                            (let body = createBodyOf u plan params origin amt;
                                 w2 = send (FetchCreate hs body) w1
                             in case fetch_create e hs body of
                                  Inl err \<Rightarrow> (Inl err, w2)
                                | Inr response \<Rightarrow>
                                    if \<not> resp_ok response then
                                      (Inl (Error [S ''Opaybd API error: '', N (resp_status response)]),
                                       console_out Err
                                         [S ''Opaybd create payment error:'', S (resp_text response)] w2)
                                    else
                                      (case resp_json response of
                                         Inl err \<Rightarrow> (Inl err, w2)
                                       | Inr data \<Rightarrow>
                                           if \<not> c_status data then
                                             (Inl (Error
                                                [S (orElse (c_message data)
                                                      ''Failed to create payment with Opaybd'')]),
                                              w2)
                                           else
                                             (Inr data,
                                              console_out Log [S ''Opaybd payment created successfully:'']
                                                w2)))))))"

definition needsRenewal :: "string \<Rightarrow> subscription \<Rightarrow> bool" where
  "needsRenewal userId s =
     (sub_userId s = userId \<and> sub_paymentProvider s = ''opaybd''
      \<and> sub_renewalRequired s = Some True \<and> sub_status s = ''active'')"

definition getSubscriptionNeedingRenewal :: "string \<Rightarrow> subscription option action" where
  "getSubscriptionNeedingRenewal userId w = (Inr (find (needsRenewal userId) (subscriptions w)), w)"

text \<open>The \<open>where\<close> clause that both statements of the sweep share. A \<open>renewalRequired\<close>
  that is NULL does not equal \<open>false\<close> in SQL.\<close>

definition expired :: "timestamp \<Rightarrow> subscription \<Rightarrow> bool" where
  "expired now s =
     (sub_paymentProvider s = ''opaybd'' \<and> sub_status s = ''active''
      \<and> sub_renewalRequired s = Some False \<and> sub_currentPeriodEnd s < now)"

definition flagForRenewal :: "timestamp \<Rightarrow> subscription \<Rightarrow> subscription" where
  "flagForRenewal now s =
     (if expired now s then s\<lparr>sub_renewalRequired := Some True, sub_updatedAt := now\<rparr> else s)"

definition markExpiredSubscriptionsForRenewal :: "env \<Rightarrow> int action" where
  "markExpiredSubscriptionsForRenewal e w =
     (let now = clock_now e;
          expiredSubs = map sub_id (filter (expired now) (subscriptions w))
      in if length expiredSubs = 0 then (Inr 0, w)
         else
           (Inr (int (length expiredSubs)),
            console_out Log
              [S ''Marked '', N (int (length expiredSubs)), S '' Opaybd subscription(s) for renewal'']
              (w\<lparr>subscriptions := map (flagForRenewal now) (subscriptions w)\<rparr>)))"

record activeSubscription =
  as_subscription :: subscription
  as_plan :: "pricingPlan option"

definition isActiveOpay :: "string \<Rightarrow> subscription \<Rightarrow> bool" where
  "isActiveOpay userId s =
     (sub_userId s = userId \<and> sub_paymentProvider s = ''opaybd'' \<and> sub_status s = ''active'')"

definition Opay_getActiveSubscription :: "string \<Rightarrow> activeSubscription option action" where
  "Opay_getActiveSubscription userId w =
     (case find (isActiveOpay userId) (subscriptions w) of
        None \<Rightarrow> (Inr None, w)
      | Some sub \<Rightarrow>
          (Inr (Some \<lparr>as_subscription = sub,
                      as_plan =
                        find (\<lambda>p. plan_stripePriceId p = sub_stripePriceId sub) (pricingPlans w)\<rparr>),
           w))"

definition isConfigured :: "env \<Rightarrow> bool" where
  "isConfigured e =
     (case getOpaySettings e of Inl err \<Rightarrow> False | Inr settings \<Rightarrow> truthy (apiKey settings))"

section \<open>PaymentRouter (lib/server/payment-router.ts)\<close>

text \<open>
  \<open>StripeService\<close> is not part of this snapshot: its two methods are parameters. A
  checkout session is what the router reads of it; an active subscription is of any
  type \<open>'s\<close>.
\<close>

record stripeSession =
  client_secret :: "string option"
  session_id :: string

record 's stripeService =
  Stripe_createCheckoutSession :: "string \<Rightarrow> string \<Rightarrow> string \<Rightarrow> string \<Rightarrow> error + stripeSession"
  Stripe_getActiveSubscription :: "string \<Rightarrow> 's option"

record checkoutParams =
  ck_userId :: string
  ck_priceId :: string
  ck_planId :: string
  ck_successUrl :: string
  ck_cancelUrl :: string

record checkoutResult =
  provider :: string
  clientSecret :: "string option"
  sessionId :: "string option"
  paymentUrl :: "string option"

definition createCheckoutSession ::
  "'s stripeService \<Rightarrow> env \<Rightarrow> checkoutParams \<Rightarrow> checkoutResult action" where
  "createCheckoutSession stripe e params w =
     (let prov = getActivePaymentProvider e;
          w0 = console_out Log [S (''Creating checkout session with provider: '' @ prov)] w
      in if prov = ''opaybd'' then
           if \<not> isConfigured e then
             (Inl (Error [S ''Opaybd is selected but not configured. Please configure Opaybd credentials in Admin > Payment Methods.'']),
              w0)
           else
             (let origin = splitHead ''/settings/billing'' (ck_successUrl params);
                  opaySuccessUrl = origin @ ''/api/opaybd/callback'';
                  opayCancelUrl = origin @ ''/settings/billing?canceled=true&provider=opaybd''
              in case createPayment e
                        \<lparr>p_userId = ck_userId params,
                         p_planId = ck_planId params,
                         p_priceId = ck_priceId params,
                         p_successUrl = opaySuccessUrl,
                         p_cancelUrl = opayCancelUrl\<rparr> w0 of
                   (Inl err, w1) \<Rightarrow> (Inl err, w1)
                 | (Inr result, w1) \<Rightarrow>
                     (Inr \<lparr>provider = ''opaybd'',
                           clientSecret = None,
                           sessionId = None,
                           paymentUrl = c_payment_url result\<rparr>,
                      w1))
         else
           (let w1 =
                  send (StripeCheckout (ck_userId params) (ck_priceId params) (ck_successUrl params)
                          (ck_cancelUrl params)) w0
            in case Stripe_createCheckoutSession stripe (ck_userId params) (ck_priceId params)
                      (ck_successUrl params) (ck_cancelUrl params) of
                 Inl err \<Rightarrow> (Inl err, w1)
               | Inr session \<Rightarrow>
                   (Inr \<lparr>provider = ''stripe'',
                         clientSecret =
                           (if truthy (client_secret session) then client_secret session else None),
                         sessionId = Some (session_id session),
                         paymentUrl = None\<rparr>,
                    w1)))"

text \<open>The spread \<open>{...subscription, provider}\<close>: the provider's answer and its tag.\<close>

record 's foundSubscription =
  found :: "'s + activeSubscription"
  found_provider :: string

definition getActiveSubscription ::
  "'s stripeService \<Rightarrow> string \<Rightarrow> 's foundSubscription option action" where
  "getActiveSubscription stripe userId w =
     (case Stripe_getActiveSubscription stripe userId of
        Some stripeSubscription \<Rightarrow>
          (Inr (Some \<lparr>found = Inl stripeSubscription, found_provider = ''stripe''\<rparr>), w)
      | None \<Rightarrow>
          (case Opay_getActiveSubscription userId w of
             (Inl err, w1) \<Rightarrow> (Inl err, w1)
           | (Inr (Some opaySubscription), w1) \<Rightarrow>
               (Inr (Some \<lparr>found = Inr opaySubscription, found_provider = ''opaybd''\<rparr>), w1)
           | (Inr None, w1) \<Rightarrow> (Inr None, w1)))"

record renewalInfo =
  r_planTier :: string
  r_daysRemaining :: int
  r_expiresAt :: timestamp

definition checkRenewalRequired :: "env \<Rightarrow> string \<Rightarrow> renewalInfo option action" where
  "checkRenewalRequired e userId w =
     (case getSubscriptionNeedingRenewal userId w of
        (Inl err, w1) \<Rightarrow> (Inl err, w1)
      | (Inr None, w1) \<Rightarrow> (Inr None, w1)
      | (Inr (Some subscription), w1) \<Rightarrow>
          (let now = clock_now e;
               expiresAt = sub_currentPeriodEnd subscription;
               diffTime = expiresAt - now;
               daysRemaining = Math_ceil (of_int diffTime / (1000 * 60 * 60 * 24))
           in (Inr (Some \<lparr>r_planTier =
                             (if sub_planTier subscription = [] then ''unknown''
                              else sub_planTier subscription),
                           r_daysRemaining = daysRemaining,
                           r_expiresAt = expiresAt\<rparr>),
               w1)))"

section \<open>Admin plan forms (routes/admin/settings/plans)\<close>

text \<open>
  A submitted form is \<open>data.get(k)?.toString()\<close> for every field name \<open>k\<close>. An action
  ends with \<open>fail(status, {error, ...})\<close>, with a thrown \<open>redirect\<close> or with a thrown
  HTTP \<open>error\<close>; the fields that \<open>fail\<close> echoes back are left out.
\<close>

type_synonym formData = "string \<Rightarrow> string option"

datatype formResult = Failure int string | Redirect int string | HttpError int string

text \<open>
  A string holds its text in UTF-8. \<open>String.prototype.trim\<close> strips the code points
  that ECMAScript calls white space or line terminators from both ends: the six of
  ASCII, and U+00A0, U+1680, U+2000 to U+200A, U+2028, U+2029, U+202F, U+205F, U+3000
  and U+FEFF.
\<close>

definition asciiWhiteSpace :: "char list" where
  "asciiWhiteSpace = [CHR 0x09, CHR 0x0A, CHR 0x0B, CHR 0x0C, CHR 0x0D, CHR 0x20]"

definition isWhiteSpace :: "char \<Rightarrow> bool" where
  "isWhiteSpace c = (c \<in> set asciiWhiteSpace)"

definition whiteSpaces :: "string list" where
  "whiteSpaces =
     map (\<lambda>c. [c]) asciiWhiteSpace
     @ [[CHR 0xC2, CHR 0xA0], [CHR 0xE1, CHR 0x9A, CHR 0x80]]
     @ map (\<lambda>c. [CHR 0xE2, CHR 0x80, c])
         [CHR 0x80, CHR 0x81, CHR 0x82, CHR 0x83, CHR 0x84, CHR 0x85, CHR 0x86, CHR 0x87,
          CHR 0x88, CHR 0x89, CHR 0x8A, CHR 0xA8, CHR 0xA9, CHR 0xAF]
     @ [[CHR 0xE2, CHR 0x81, CHR 0x9F], [CHR 0xE3, CHR 0x80, CHR 0x80], [CHR 0xEF, CHR 0xBB, CHR 0xBF]]"

text \<open>\<open>stripStart seqs s\<close> removes from the front of \<open>s\<close> every leading sequence of \<open>seqs\<close>.\<close>

function stripStart :: "string list \<Rightarrow> string \<Rightarrow> string" where
  "stripStart seqs s =
     (case find (\<lambda>q. q \<noteq> [] \<and> take (length q) s = q) seqs of
        None \<Rightarrow> s
      | Some q \<Rightarrow> stripStart seqs (drop (length q) s))"
  by pat_completeness auto
termination
proof (relation "measure (\<lambda>(seqs, s). length s)")
  show "wf (measure (\<lambda>(seqs, s). length s))"
    by simp
next
  fix seqs :: "string list" and s q :: string
  assume "find (\<lambda>q. q \<noteq> [] \<and> take (length q) s = q) seqs = Some q"
  then have "q \<noteq> [] \<and> take (length q) s = q"
    by (induction seqs) (simp_all split: if_splits)
  then have "s \<noteq> [] \<and> 0 < length q"
    by (cases s) auto
  then show "((seqs, drop (length q) s), (seqs, s)) \<in> measure (\<lambda>(seqs, s). length s)"
    by (cases s) simp_all
qed

declare stripStart.simps [simp del]

definition trim :: "string \<Rightarrow> string" where
  "trim s = rev (stripStart (map rev whiteSpaces) (rev (stripStart whiteSpaces s)))"

fun splitOn :: "char \<Rightarrow> string \<Rightarrow> string list" where
  "splitOn c [] = [[]]"
| "splitOn c (x # xs) =
     (if x = c then [] # splitOn c xs
      else (case splitOn c xs of [] \<Rightarrow> [[x]] | y # ys \<Rightarrow> (x # y) # ys))"

text \<open>\<open>v === '' || v === undefined || v === null ? null : parseInt(v)\<close>, then \<open>NaN\<close> to
  \<open>null\<close>.\<close>

definition parseLimit :: "env \<Rightarrow> string option \<Rightarrow> int option" where
  "parseLimit e v = (case v of None \<Rightarrow> None | Some s \<Rightarrow> if s = [] then None else parseInt e s)"

definition parseFeatures :: "string option \<Rightarrow> string list" where
  "parseFeatures v =
     (if truthy v then filter (\<lambda>f. length f > 0) (map trim (splitOn (CHR 0x0A) (orElse v [])))
      else [])"

record planForm =
  f_name :: string
  f_tier :: string
  f_stripePriceId :: string
  f_priceAmount :: int
  f_priceAmountBdt :: "int option"
  f_currency :: string
  f_billingInterval :: string
  f_textLimit :: "int option"
  f_imageLimit :: "int option"
  f_videoLimit :: "int option"
  f_audioLimit :: "int option"
  f_features :: "string list"
  f_isActive :: bool

text \<open>The optional BDT price of both actions: \<open>null\<close> unless the field holds more than
  white space; then its \<open>parseInt\<close>, which must be a number and not negative.\<close>

definition parsePriceAmountBdt :: "env \<Rightarrow> string option \<Rightarrow> formResult + int option" where
  "parsePriceAmountBdt e v =
     (if truthy v \<and> trim (orElse v []) \<noteq> [] then
        (case parseInt e (orElse v []) of
           None \<Rightarrow> Inl (Failure 400 ''BDT price amount must be a valid positive number'')
         | Some n \<Rightarrow>
             if n < 0 then Inl (Failure 400 ''BDT price amount must be a valid positive number'')
             else Inr (Some n))
      else Inr None)"

text \<open>The reading and validation that the \<open>create\<close> and the \<open>update\<close> action share,
  check by check in the order of the source.\<close>

definition readPlanForm :: "env \<Rightarrow> formData \<Rightarrow> formResult + planForm" where
  "readPlanForm e data =
     (if \<not> truthy (data ''name'') \<or> \<not> truthy (data ''tier'') \<or> \<not> truthy (data ''stripePriceId'')
         \<or> \<not> truthy (data ''priceAmount'') \<or> \<not> truthy (data ''billingInterval'') then
        Inl (Failure 400 ''Required fields are missing'')
      else if orElse (data ''tier'') [] \<notin> set [''free'', ''starter'', ''pro'', ''advanced''] then
        Inl (Failure 400 ''Invalid tier selected'')
      else if orElse (data ''billingInterval'') [] \<notin> set [''month'', ''year''] then
        Inl (Failure 400 ''Invalid billing interval selected'')
      else
        (case parseInt e (orElse (data ''priceAmount'') []) of
           None \<Rightarrow> Inl (Failure 400 ''Price amount must be a valid positive number'')
         | Some priceAmountNum \<Rightarrow>
             if priceAmountNum < 0 then
               Inl (Failure 400 ''Price amount must be a valid positive number'')
             else
               (case parsePriceAmountBdt e (data ''priceAmountBdt'') of
                  Inl failure \<Rightarrow> Inl failure
                | Inr priceAmountBdtNum \<Rightarrow>
                    Inr \<lparr>f_name = orElse (data ''name'') [],
                         f_tier = orElse (data ''tier'') [],
                         f_stripePriceId = orElse (data ''stripePriceId'') [],
                         f_priceAmount = priceAmountNum,
                         f_priceAmountBdt = priceAmountBdtNum,
                         f_currency = orElse (data ''currency'') ''usd'',
                         f_billingInterval = orElse (data ''billingInterval'') [],
                         f_textLimit = parseLimit e (data ''textGenerationLimit''),
                         f_imageLimit = parseLimit e (data ''imageGenerationLimit''),
                         f_videoLimit = parseLimit e (data ''videoGenerationLimit''),
                         f_audioLimit = parseLimit e (data ''audioGenerationLimit''),
                         f_features = parseFeatures (data ''features''),
                         f_isActive = (data ''isActive'' = Some ''on'')\<rparr>)))"

definition createPlan :: "env \<Rightarrow> formData \<Rightarrow> world \<Rightarrow> formResult \<times> world" where
  "createPlan e data w =
     (if isDemoModeEnabled e then (Failure 403 (ADMIN_SAVE_DISABLED e), w)
      else
        (case readPlanForm e data of
           Inl failure \<Rightarrow> (failure, w)
         | Inr f \<Rightarrow>
             (Redirect 303 ''/admin/settings/plans'',
              w\<lparr>pricingPlans :=
                   pricingPlans w
                   @ [\<lparr>plan_id = randomUUID_plan e,
                       plan_name = f_name f,
                       plan_tier = f_tier f,
                       plan_stripePriceId = f_stripePriceId f,
                       plan_priceAmount = f_priceAmount f,
                       plan_priceAmountBdt = f_priceAmountBdt f,
                       plan_currency = f_currency f,
                       plan_billingInterval = f_billingInterval f,
                       plan_textGenerationLimit = f_textLimit f,
                       plan_imageGenerationLimit = f_imageLimit f,
                       plan_videoGenerationLimit = f_videoLimit f,
                       plan_audioGenerationLimit = f_audioLimit f,
                       plan_features = f_features f,
                       plan_isActive = True,
                       plan_createdAt = db_now e,
                       plan_updatedAt = db_now e\<rparr>]\<rparr>)))"

definition setPlan :: "env \<Rightarrow> planForm \<Rightarrow> string \<Rightarrow> pricingPlan \<Rightarrow> pricingPlan" where
  "setPlan e f planId p =
     (if plan_id p = planId then
        p\<lparr>plan_name := f_name f,
          plan_tier := f_tier f,
          plan_stripePriceId := f_stripePriceId f,
          plan_priceAmount := f_priceAmount f,
          plan_priceAmountBdt := f_priceAmountBdt f,
          plan_currency := f_currency f,
          plan_billingInterval := f_billingInterval f,
          plan_textGenerationLimit := f_textLimit f,
          plan_imageGenerationLimit := f_imageLimit f,
          plan_videoGenerationLimit := f_videoLimit f,
          plan_audioGenerationLimit := f_audioLimit f,
          plan_features := f_features f,
          plan_isActive := f_isActive f,
          plan_updatedAt := clock_now e\<rparr>
      else p)"

definition updatePlan :: "env \<Rightarrow> string option \<Rightarrow> formData \<Rightarrow> world \<Rightarrow> formResult \<times> world" where
  "updatePlan e planId data w =
     (if isDemoModeEnabled e then (Failure 403 (ADMIN_SAVE_DISABLED e), w)
      else if \<not> truthy planId then (HttpError 404 ''Plan not found'', w)
      else
        (case readPlanForm e data of
           Inl failure \<Rightarrow> (failure, w)
         | Inr f \<Rightarrow>
             (Redirect 303 ''/admin/settings/plans'',
              w\<lparr>pricingPlans := map (setPlan e f (orElse planId [])) (pricingPlans w)\<rparr>)))"

text \<open>The \<open>load\<close> of the edit page reads the plan back.\<close>

definition loadPlan :: "string option \<Rightarrow> world \<Rightarrow> formResult + pricingPlan" where
  "loadPlan planId w =
     (if \<not> truthy planId then Inl (HttpError 404 ''Plan not found'')
      else
        (case find (\<lambda>p. plan_id p = orElse planId []) (pricingPlans w) of
           None \<Rightarrow> Inl (HttpError 404 ''Plan not found'')
         | Some p \<Rightarrow> Inr p))"

section \<open>UsageTrackingService\<close>

datatype category = Text | Image | Video | Audio

definition counterOf :: "category \<Rightarrow> usageRow \<Rightarrow> int" where
  "counterOf c r =
     (case c of
        Text \<Rightarrow> usage_textGenerationCount r
      | Image \<Rightarrow> usage_imageGenerationCount r
      | Video \<Rightarrow> usage_videoGenerationCount r
      | Audio \<Rightarrow> usage_audioGenerationCount r)"

definition increment :: "category \<Rightarrow> usageRow \<Rightarrow> usageRow" where
  "increment c r =
     (case c of
        Text \<Rightarrow> r\<lparr>usage_textGenerationCount := usage_textGenerationCount r + 1\<rparr>
      | Image \<Rightarrow> r\<lparr>usage_imageGenerationCount := usage_imageGenerationCount r + 1\<rparr>
      | Video \<Rightarrow> r\<lparr>usage_videoGenerationCount := usage_videoGenerationCount r + 1\<rparr>
      | Audio \<Rightarrow> r\<lparr>usage_audioGenerationCount := usage_audioGenerationCount r + 1\<rparr>)"

definition isCurrentRow :: "env \<Rightarrow> string \<Rightarrow> usageRow \<Rightarrow> bool" where
  "isCurrentRow e userId r =
     (usage_userId r = userId \<and> usage_month r = Date_month e (clock_now e)
      \<and> usage_year r = Date_year e (clock_now e))"

definition currentCounter :: "env \<Rightarrow> string \<Rightarrow> category \<Rightarrow> world \<Rightarrow> int" where
  "currentCounter e userId c w =
     (case find (isCurrentRow e userId) (usageTracking w) of
        None \<Rightarrow> 0
      | Some r \<Rightarrow> counterOf c r)"

text \<open>
  Modelled from the spec: \<open>UsageTrackingService.checkUsageLimit\<close> of
  \<open>lib/server/usage-tracking\<close>, which is not among the sources; only its callers are.
  After section 4.3: it loads the counter of the category for the current month and
  year (zero before the row exists) and the limit of the user's plan for the category,
  here the parameter \<open>planLimit\<close>, and fails with the typed error that carries the
  remaining quota when the limit is not null and the counter has reached it.
\<close>

definition checkUsageLimit ::
  "(string \<Rightarrow> category \<Rightarrow> int option) \<Rightarrow> env \<Rightarrow> string \<Rightarrow> category \<Rightarrow> unit action" where
  "checkUsageLimit planLimit e userId c w =
     (let counter = currentCounter e userId c w
      in case planLimit userId c of
           None \<Rightarrow> (Inr (), w)
         | Some limit \<Rightarrow>
             if counter \<ge> limit then
               (Inl (UsageLimitError [S ''usage limit exceeded''] (max 0 (limit - counter))), w)
             else (Inr (), w))"

text \<open>
  Modelled from the spec: \<open>UsageTrackingService.trackUsage\<close>, absent like
  \<open>checkUsageLimit\<close>. After section 4.3: it increments the counter of the category in
  the row of the current month and year, and creates the row when there is none.
\<close>

definition trackUsage :: "env \<Rightarrow> string \<Rightarrow> category \<Rightarrow> unit action" where
  "trackUsage e userId c w =
     (case find (isCurrentRow e userId) (usageTracking w) of
        Some r \<Rightarrow>
          (Inr (),
           w\<lparr>usageTracking :=
                map (\<lambda>r. if isCurrentRow e userId r then increment c r else r) (usageTracking w)\<rparr>)
      | None \<Rightarrow>
          (Inr (),
           w\<lparr>usageTracking :=
                usageTracking w
                @ [increment c
                     \<lparr>usage_userId = userId,
                      usage_month = Date_month e (clock_now e),
                      usage_year = Date_year e (clock_now e),
                      usage_textGenerationCount = 0,
                      usage_imageGenerationCount = 0,
                      usage_videoGenerationCount = 0,
                      usage_audioGenerationCount = 0\<rparr>]\<rparr>))"

section \<open>Example inputs\<close>

text \<open>A gateway that answers every verification with the given status and metadata.\<close>

definition ex_verify :: "string \<Rightarrow> metadata \<Rightarrow> headers \<Rightarrow> string \<Rightarrow> error + verifyData response" where
  "ex_verify st md hs t =
     Inr \<lparr>resp_ok = True, resp_status = 200, resp_text = [],
          resp_json =
            Inr \<lparr>v_status = st, v_cus_name = ''Rina'', v_cus_email = ''rina@example.com'',
                 v_amount = ''500'', v_transaction_id = t, v_payment_method = ''bKash'',
                 v_metadata = md\<rparr>\<rparr>"

definition ex_created :: "headers \<Rightarrow> createBody \<Rightarrow> error + createData response" where
  "ex_created hs b =
     Inr \<lparr>resp_ok = True, resp_status = 200, resp_text = [],
          resp_json =
            Inr \<lparr>c_status = True, c_message = Some ''ok'',
                 c_payment_url = Some ''https://pay.example/p/1''\<rparr>\<rparr>"

text \<open>A gateway that reports success and sends no payment URL.\<close>

definition ex_created_bare :: "headers \<Rightarrow> createBody \<Rightarrow> error + createData response" where
  "ex_created_bare hs b =
     Inr \<lparr>resp_ok = True, resp_status = 200, resp_text = [],
          resp_json = Inr \<lparr>c_status = True, c_message = Some ''ok'', c_payment_url = None\<rparr>\<rparr>"

definition ex_env :: "string \<Rightarrow> metadata \<Rightarrow> env" where
  "ex_env st md =
     \<lparr>clock_now = 1700000000000,
      db_now = 1700000000005,
      randomUUID_subscription = ''sub-new'',
      randomUUID_payment = ''pay-new'',
      randomUUID_plan = ''plan-new'',
      getActivePaymentProvider = ''opaybd'',
      getOpaySettings = Inr \<lparr>apiKey = Some ''k''\<rparr>,
      isDemoModeEnabled = False,
      ADMIN_SAVE_DISABLED = ''Saving is disabled in demo mode'',
      Date_plusYear = (\<lambda>t. t + 31536000000),
      Date_plusMonth = (\<lambda>t. t + 2592000000),
      Date_month = (\<lambda>t. 11),
      Date_year = (\<lambda>t. 2023),
      URL_origin = (\<lambda>u. Some ''https://app.example''),
      JSON_parse = (\<lambda>s. None),
      parseInt = (\<lambda>s. if s = ''1900'' then Some 1900 else None),
      fetch_create = ex_created,
      fetch_verify = ex_verify st md\<rparr>"

definition ex_user :: user where
  "ex_user =
     \<lparr>user_id = ''u1'', user_name = Some ''Rina'', user_email = Some ''rina@example.com'',
      user_subscriptionStatus = Some ''incomplete'', user_planTier = Some ''free''\<rparr>"

definition ex_world :: world where
  "ex_world =
     \<lparr>users = [ex_user], subscriptions = [], pricingPlans = [], paymentHistory = [],
      usageTracking = [], console = [], requests = []\<rparr>"

definition ex_params :: callbackParams where
  "ex_params =
     \<lparr>cb_transactionId = ''tx1'', cb_paymentMethod = ''bKash'', cb_paymentAmount = Finite 500,
      cb_paymentFee = Finite 10, cb_status = ''success''\<rparr>"

text \<open>A regional-gateway subscription of the example user, active and not flagged,
  whose period ended two days before the example clock.\<close>

definition ex_sub :: subscription where
  "ex_sub =
     \<lparr>sub_id = ''s1'', sub_userId = ''u1'', sub_stripeSubscriptionId = ''opay_tx0'',
      sub_stripePriceId = ''price_pro'', sub_planTier = ''pro'', sub_previousPlanTier = None,
      sub_status = ''active'', sub_currentPeriodStart = 1697000000000,
      sub_currentPeriodEnd = 1699827200000, sub_cancelAtPeriodEnd = False,
      sub_canceledAt = None, sub_endedAt = None, sub_planChangedAt = None,
      sub_paymentProvider = ''opaybd'', sub_opayTransactionId = Some ''tx0'',
      sub_renewalRequired = Some False, sub_lastPaymentAmount = Some 50000,
      sub_renewalReminderSentAt = None, sub_createdAt = 1697000000000,
      sub_updatedAt = 1697000000000\<rparr>"



text \<open>Stripe in embedded mode (a client secret) and in hosted mode (none); the user
  \<open>u2\<close> has a Stripe subscription.\<close>

definition ex_stripe :: "string stripeService" where
  "ex_stripe =
     \<lparr>Stripe_createCheckoutSession =
        (\<lambda>u p s c. Inr \<lparr>client_secret = Some ''cs_secret_1'', session_id = ''cs_1''\<rparr>),
      Stripe_getActiveSubscription = (\<lambda>u. if u = ''u2'' then Some ''sub_stripe_u2'' else None)\<rparr>"

definition ex_stripe_hosted :: "string stripeService" where
  "ex_stripe_hosted =
     \<lparr>Stripe_createCheckoutSession =
        (\<lambda>u p s c. Inr \<lparr>client_secret = None, session_id = ''cs_2''\<rparr>),
      Stripe_getActiveSubscription = (\<lambda>u. None)\<rparr>"

definition ex_checkout :: checkoutParams where
  "ex_checkout =
     \<lparr>ck_userId = ''u1'', ck_priceId = ''price_pro'', ck_planId = ''plan1'',
      ck_successUrl = ''https://app.example/settings/billing?session_id={CHECKOUT_SESSION_ID}'',
      ck_cancelUrl = ''https://app.example/settings/billing?canceled=true''\<rparr>"

definition ex_plan :: pricingPlan where
  "ex_plan =
     \<lparr>plan_id = ''plan1'', plan_name = ''Pro'', plan_tier = ''pro'',
      plan_stripePriceId = ''price_pro'', plan_priceAmount = 1900,
      plan_priceAmountBdt = Some 250000, plan_currency = ''usd'',
      plan_billingInterval = ''month'', plan_textGenerationLimit = None,
      plan_imageGenerationLimit = Some 100, plan_videoGenerationLimit = Some 0,
      plan_audioGenerationLimit = Some 3, plan_features = [''Everything''],
      plan_isActive = True, plan_createdAt = 1690000000000, plan_updatedAt = 1690000000000\<rparr>"

definition ex_env_stripe :: env where
  "ex_env_stripe = (ex_env ''COMPLETED'' MetaMissing)\<lparr>getActivePaymentProvider := ''stripe''\<rparr>"

definition ex_env_bare :: env where
  "ex_env_bare = (ex_env ''COMPLETED'' MetaMissing)\<lparr>fetch_create := ex_created_bare\<rparr>"

definition ex_env_unconfigured :: env where
  "ex_env_unconfigured = (ex_env ''COMPLETED'' MetaMissing)\<lparr>getOpaySettings := Inr \<lparr>apiKey = None\<rparr>\<rparr>"

text \<open>A plan form whose BDT price field was left empty, and a plan without a BDT price.\<close>

definition ex_form :: formData where
  "ex_form =
     map_of [(''name'', ''Pro''), (''tier'', ''pro''), (''stripePriceId'', ''price_pro''),
             (''priceAmount'', ''1900''), (''priceAmountBdt'', ''''), (''billingInterval'', ''month''),
             (''audioGenerationLimit'', ''''), (''isActive'', ''on'')]"

definition ex_payment_params :: paymentCreateParams where
  "ex_payment_params =
     \<lparr>p_userId = ''u1'', p_planId = ''plan1'', p_priceId = ''price_pro'',
      p_successUrl = ''https://app.example/api/opaybd/callback'',
      p_cancelUrl = ''https://app.example/settings/billing?canceled=true&provider=opaybd''\<rparr>"

text \<open>A plan that allows three audio generations a month and unlimited text.\<close>

definition ex_planLimit :: "string \<Rightarrow> category \<Rightarrow> int option" where
  "ex_planLimit u c = (case c of Audio \<Rightarrow> Some 3 | Text \<Rightarrow> None | Image \<Rightarrow> Some 100 | Video \<Rightarrow> Some 0)"

section \<open>Verification of the payment before any write\<close>

text \<open>What \<open>verifyPayment\<close> answers does not depend on the world it runs in, and it
  touches no table: it sends at most its one request and may write to the console.\<close>

lemma verifyPayment_fst: "fst (verifyPayment e t w) = fst (verifyPayment e t w')"
  by (simp add: verifyPayment_def Let_def split: sum.splits metadata.splits option.splits)

lemma verifyPayment_frame:
  "users (snd (verifyPayment e t w)) = users w
   \<and> subscriptions (snd (verifyPayment e t w)) = subscriptions w
   \<and> pricingPlans (snd (verifyPayment e t w)) = pricingPlans w
   \<and> paymentHistory (snd (verifyPayment e t w)) = paymentHistory w
   \<and> usageTracking (snd (verifyPayment e t w)) = usageTracking w"
  by (simp add: verifyPayment_def Let_def send_def console_out_def
      split: sum.splits metadata.splits option.splits)

lemma verifyPayment_requests:
  "requests (snd (verifyPayment e t w))
   = requests w @ (case getHeaders e of Inl err \<Rightarrow> [] | Inr hs \<Rightarrow> [FetchVerify hs t])"
  by (simp add: verifyPayment_def Let_def send_def console_out_def
      split: sum.splits metadata.splits option.splits)

lemma ex_verifyPayment:
  "fst (verifyPayment (ex_env st md) ''tx1'' w)
   = Inr \<lparr>v_status = st, v_cus_name = ''Rina'', v_cus_email = ''rina@example.com'',
          v_amount = ''500'', v_transaction_id = ''tx1'', v_payment_method = ''bKash'',
          v_metadata = md\<rparr>"
  by (cases md)
    (simp_all add: verifyPayment_def getHeaders_def ex_env_def ex_verify_def Let_def)

text \<open>
  C1. \<open>handlePaymentSuccess\<close> asks \<open>verifyPayment\<close> before anything else, whatever the
  callback parameters say. When the verification answers with a status other than
  \<open>COMPLETED\<close>, it throws \<open>Payment not completed\<close> with that status, and no row of the
  users, subscriptions, payment history, plans or usage tables has changed; the only
  request that went out is the one of \<open>verifyPayment\<close>.
\<close>

theorem handlePaymentSuccess_not_completed:
  assumes "fst (verifyPayment e (cb_transactionId params) w) = Inr v"
    and "v_status v \<noteq> ''COMPLETED''"
  shows "fst (handlePaymentSuccess e params w)
           = Inl (Error [S (''Payment not completed. Status: '' @ v_status v)])
         \<and> users (snd (handlePaymentSuccess e params w)) = users w
         \<and> subscriptions (snd (handlePaymentSuccess e params w)) = subscriptions w
         \<and> paymentHistory (snd (handlePaymentSuccess e params w)) = paymentHistory w
         \<and> pricingPlans (snd (handlePaymentSuccess e params w)) = pricingPlans w
         \<and> usageTracking (snd (handlePaymentSuccess e params w)) = usageTracking w
         \<and> requests (snd (handlePaymentSuccess e params w))
             = requests (snd (verifyPayment e (cb_transactionId params) w))"
proof -
  let ?w0 = "console_out Log [S ''Processing Opaybd payment success:'', S (cb_transactionId params)] w"
  let ?r = "verifyPayment e (cb_transactionId params) ?w0"
  have f: "fst ?r = Inr v"
    using assms(1) verifyPayment_fst[of e "cb_transactionId params" ?w0 w] by simp
  have h: "handlePaymentSuccess e params w
             = (Inl (Error [S (''Payment not completed. Status: '' @ v_status v)]), snd ?r)"
    using f assms(2) by (cases ?r) (simp add: handlePaymentSuccess_def Let_def)
  have w0: "users ?w0 = users w" "subscriptions ?w0 = subscriptions w"
    "paymentHistory ?w0 = paymentHistory w" "pricingPlans ?w0 = pricingPlans w"
    "usageTracking ?w0 = usageTracking w" "requests ?w0 = requests w"
    by (simp_all add: console_out_def)
  show ?thesis
    using verifyPayment_frame[of e "cb_transactionId params" ?w0]
      verifyPayment_requests[of e "cb_transactionId params" ?w0]
      verifyPayment_requests[of e "cb_transactionId params" w]
    by (simp add: h w0)
qed

theorem handlePaymentSuccess_not_completed_witness:
  "fst (handlePaymentSuccess (ex_env ''PENDING'' MetaMissing) ex_params ex_world)
       = Inl (Error [S ''Payment not completed. Status: PENDING''])
   \<and> users (snd (handlePaymentSuccess (ex_env ''PENDING'' MetaMissing) ex_params ex_world)) = [ex_user]
   \<and> subscriptions (snd (handlePaymentSuccess (ex_env ''PENDING'' MetaMissing) ex_params ex_world)) = []
   \<and> paymentHistory (snd (handlePaymentSuccess (ex_env ''PENDING'' MetaMissing) ex_params ex_world)) = []
   \<and> requests (snd (handlePaymentSuccess (ex_env ''PENDING'' MetaMissing) ex_params ex_world))
       = [FetchVerify [(''Content-Type'', ''application/json''), (''API-KEY'', ''k'')] ''tx1'']"
proof -
  have t: "cb_transactionId ex_params = ''tx1''"
    by (simp add: ex_params_def)
  have v: "fst (verifyPayment (ex_env ''PENDING'' MetaMissing) (cb_transactionId ex_params) ex_world)
     = Inr \<lparr>v_status = ''PENDING'', v_cus_name = ''Rina'', v_cus_email = ''rina@example.com'',
            v_amount = ''500'', v_transaction_id = ''tx1'', v_payment_method = ''bKash'',
            v_metadata = MetaMissing\<rparr>"
    unfolding t by (rule ex_verifyPayment)
  have r: "requests (snd (verifyPayment (ex_env ''PENDING'' MetaMissing) (cb_transactionId ex_params) ex_world))
       = [FetchVerify [(''Content-Type'', ''application/json''), (''API-KEY'', ''k'')] ''tx1'']"
    by (simp add: verifyPayment_requests getHeaders_def ex_env_def t ex_world_def)
  show ?thesis
    using handlePaymentSuccess_not_completed[OF v] r by (simp add: ex_world_def)
qed

section \<open>Renewal countdown\<close>

lemma days_ceiling: "\<lceil>(of_int (d * 86400000) :: rat) / 86400000\<rceil> = d"
proof -
  have "(of_int (d * 86400000) :: rat) / 86400000 = of_int d" by simp
  then show ?thesis by simp
qed

lemma checkRenewalRequired_some:
  assumes "find (needsRenewal userId) (subscriptions w) = Some s"
  shows "checkRenewalRequired e userId w
         = (Inr (Some \<lparr>r_planTier = (if sub_planTier s = [] then ''unknown'' else sub_planTier s),
                      r_daysRemaining = \<lceil>(of_int (sub_currentPeriodEnd s - clock_now e) :: rat) / 86400000\<rceil>,
                      r_expiresAt = sub_currentPeriodEnd s\<rparr>), w)"
  using assms
  by (simp add: checkRenewalRequired_def getSubscriptionNeedingRenewal_def Let_def Math_ceil_def)

lemma checkRenewalRequired_none:
  assumes "find (needsRenewal userId) (subscriptions w) = None"
  shows "checkRenewalRequired e userId w = (Inr None, w)"
  using assms
  by (simp add: checkRenewalRequired_def getSubscriptionNeedingRenewal_def)



text \<open>
  C7. \<open>checkRenewalRequired\<close> answers \<open>null\<close> exactly when the user has no
  regional-gateway subscription with \<open>renewalRequired = true\<close> and status \<open>active\<close>.
  Otherwise it answers for the first such row with its plan tier (\<open>unknown\<close> for an
  empty one), its period end, and the days remaining: the ceiling of the milliseconds
  to the period end over 86,400,000, which is 3 three days ahead and \<open>-2\<close> two days
  after the end, with no clamping. The world it returns is the world it got, so a
  second call answers the same.
\<close>

theorem checkRenewalRequired_days:
  "(fst (checkRenewalRequired e userId w) = Inr None
      \<longleftrightarrow> \<not> (\<exists>s\<in>set (subscriptions w).
               sub_userId s = userId \<and> sub_paymentProvider s = ''opaybd''
               \<and> sub_renewalRequired s = Some True \<and> sub_status s = ''active''))
   \<and> (\<forall>s. find (needsRenewal userId) (subscriptions w) = Some s \<longrightarrow>
         fst (checkRenewalRequired e userId w)
         = Inr (Some \<lparr>r_planTier = (if sub_planTier s = [] then ''unknown'' else sub_planTier s),
                      r_daysRemaining = \<lceil>(of_int (sub_currentPeriodEnd s - clock_now e) :: rat) / 86400000\<rceil>,
                      r_expiresAt = sub_currentPeriodEnd s\<rparr>)
         \<and> (sub_currentPeriodEnd s = clock_now e + 3 * 86400000 \<longrightarrow>
              \<lceil>(of_int (sub_currentPeriodEnd s - clock_now e) :: rat) / 86400000\<rceil> = 3)
         \<and> (sub_currentPeriodEnd s = clock_now e - 2 * 86400000 \<longrightarrow>
              \<lceil>(of_int (sub_currentPeriodEnd s - clock_now e) :: rat) / 86400000\<rceil> = - 2))
   \<and> snd (checkRenewalRequired e userId w) = w
   \<and> checkRenewalRequired e userId (snd (checkRenewalRequired e userId w)) = checkRenewalRequired e userId w"
proof -
  have w: "snd (checkRenewalRequired e userId w) = w"
    by (cases "find (needsRenewal userId) (subscriptions w)")
      (simp_all add: checkRenewalRequired_some checkRenewalRequired_none)
  have f: "(find (needsRenewal userId) (subscriptions w) = None)
       = (\<not> (\<exists>s\<in>set (subscriptions w). needsRenewal userId s))"
    by (auto simp: find_None_iff)
  have g: "(fst (checkRenewalRequired e userId w) = Inr None)
       = (find (needsRenewal userId) (subscriptions w) = None)"
    by (cases "find (needsRenewal userId) (subscriptions w)")
      (simp_all add: checkRenewalRequired_some checkRenewalRequired_none)
  have n: "fst (checkRenewalRequired e userId w) = Inr None
      \<longleftrightarrow> \<not> (\<exists>s\<in>set (subscriptions w).
               sub_userId s = userId \<and> sub_paymentProvider s = ''opaybd''
               \<and> sub_renewalRequired s = Some True \<and> sub_status s = ''active'')"
    unfolding g f by (simp add: needsRenewal_def)
  have d3: "\<And>s. sub_currentPeriodEnd s = clock_now e + 3 * 86400000 \<Longrightarrow>
              \<lceil>(of_int (sub_currentPeriodEnd s - clock_now e) :: rat) / 86400000\<rceil> = 3"
    using days_ceiling[of 3] by simp
  have d2: "\<And>s. sub_currentPeriodEnd s = clock_now e - 2 * 86400000 \<Longrightarrow>
              \<lceil>(of_int (sub_currentPeriodEnd s - clock_now e) :: rat) / 86400000\<rceil> = - 2"
    using days_ceiling[of "- 2"] by simp
  show ?thesis
    apply (intro conjI allI impI)
    subgoal by (rule n)
    subgoal for s by (simp add: checkRenewalRequired_some)
    subgoal for s by (rule d3)
    subgoal for s by (rule d2)
    subgoal by (rule w)
    subgoal by (simp only: w)
    done
qed


theorem checkRenewalRequired_days_witness:
  "fst (checkRenewalRequired (ex_env ''COMPLETED'' MetaMissing) ''u1''
          (ex_world\<lparr>subscriptions :=
             [ex_sub\<lparr>sub_renewalRequired := Some True, sub_currentPeriodEnd := 1700259200000\<rparr>]\<rparr>))
     = Inr (Some \<lparr>r_planTier = ''pro'', r_daysRemaining = 3, r_expiresAt = 1700259200000\<rparr>)
   \<and> fst (checkRenewalRequired (ex_env ''COMPLETED'' MetaMissing) ''u1''
          (ex_world\<lparr>subscriptions :=
             [ex_sub\<lparr>sub_renewalRequired := Some True, sub_currentPeriodEnd := 1699827200000\<rparr>]\<rparr>))
     = Inr (Some \<lparr>r_planTier = ''pro'', r_daysRemaining = - 2, r_expiresAt = 1699827200000\<rparr>)
   \<and> fst (checkRenewalRequired (ex_env ''COMPLETED'' MetaMissing) ''u1'' ex_world) = Inr None"
proof -
  let ?e = "ex_env ''COMPLETED'' MetaMissing"
  let ?s3 = "ex_sub\<lparr>sub_renewalRequired := Some True, sub_currentPeriodEnd := 1700259200000\<rparr>"
  let ?s2 = "ex_sub\<lparr>sub_renewalRequired := Some True, sub_currentPeriodEnd := 1699827200000\<rparr>"
  have n: "clock_now ?e = 1700000000000" by (simp add: ex_env_def)
  have f3: "find (needsRenewal ''u1'') (subscriptions (ex_world\<lparr>subscriptions := [?s3]\<rparr>)) = Some ?s3"
    by (simp add: needsRenewal_def ex_sub_def)
  have f2: "find (needsRenewal ''u1'') (subscriptions (ex_world\<lparr>subscriptions := [?s2]\<rparr>)) = Some ?s2"
    by (simp add: needsRenewal_def ex_sub_def)
  have a: "fst (checkRenewalRequired ?e ''u1'' (ex_world\<lparr>subscriptions := [?s3]\<rparr>))
     = Inr (Some \<lparr>r_planTier = ''pro'', r_daysRemaining = 3, r_expiresAt = 1700259200000\<rparr>)"
    using checkRenewalRequired_days[of ?e "''u1''" "ex_world\<lparr>subscriptions := [?s3]\<rparr>"] f3 n
    by (simp add: ex_sub_def)
  have b: "fst (checkRenewalRequired ?e ''u1'' (ex_world\<lparr>subscriptions := [?s2]\<rparr>))
     = Inr (Some \<lparr>r_planTier = ''pro'', r_daysRemaining = - 2, r_expiresAt = 1699827200000\<rparr>)"
    using checkRenewalRequired_days[of ?e "''u1''" "ex_world\<lparr>subscriptions := [?s2]\<rparr>"] f2 n
    by (simp add: ex_sub_def)
  have c: "fst (checkRenewalRequired ?e ''u1'' ex_world) = Inr None"
    using checkRenewalRequired_days[of ?e "''u1''" ex_world] by (simp add: ex_world_def)
  show ?thesis using a b c by simp
qed



section \<open>The sweep that flags expired subscriptions\<close>

lemma flagForRenewal_id: "\<not> expired now s \<Longrightarrow> flagForRenewal now s = s"
  by (simp add: flagForRenewal_def)

lemma map_flag_none: "filter (expired now) xs = [] \<Longrightarrow> map (flagForRenewal now) xs = xs"
  by (induction xs) (simp_all add: flagForRenewal_id split: if_splits)

lemma mark_subscriptions:
  "subscriptions (snd (markExpiredSubscriptionsForRenewal e w))
   = map (flagForRenewal (clock_now e)) (subscriptions w)"
  by (simp add: markExpiredSubscriptionsForRenewal_def Let_def console_out_def map_flag_none)

lemma mark_count:
  "fst (markExpiredSubscriptionsForRenewal e w)
   = Inr (int (length (filter (expired (clock_now e)) (subscriptions w))))"
  by (simp add: markExpiredSubscriptionsForRenewal_def Let_def)

lemma expired_flag:
  "expired now2 (flagForRenewal now s) = (expired now2 s \<and> \<not> expired now s)"
proof (cases "expired now s")
  case True
  then show ?thesis by (simp add: flagForRenewal_def) (simp add: expired_def)
next
  case False
  then show ?thesis by (simp add: flagForRenewal_def)
qed

lemma filter_after_flag:
  assumes "\<forall>s\<in>set xs. expired now2 s \<longrightarrow> expired now s"
  shows "filter (expired now2) (map (flagForRenewal now) xs) = []"
  using assms by (induction xs) (simp_all add: expired_flag)

lemma mark_nothing:
  "filter (expired (clock_now e)) (subscriptions w) = [] \<Longrightarrow>
   markExpiredSubscriptionsForRenewal e w = (Inr 0, w)"
  by (simp add: markExpiredSubscriptionsForRenewal_def Let_def)


text \<open>
  C9. \<open>markExpiredSubscriptionsForRenewal\<close> sets \<open>renewalRequired\<close> (and \<open>updatedAt\<close>) on
  exactly the rows that are regional-gateway, \<open>active\<close>, not yet flagged and past
  their period end, keeps every other row and every other table, and returns how many
  rows it flagged. A repeated run whose clock makes no further row expired (the same
  clock reading in particular) flags nothing, returns 0 and changes nothing at all.
\<close>

theorem markExpired_flags_exactly:
  assumes "\<forall>s\<in>set (subscriptions w). expired (clock_now e2) s \<longrightarrow> expired (clock_now e) s"
  shows "fst (markExpiredSubscriptionsForRenewal e w)
           = Inr (int (length (filter (expired (clock_now e)) (subscriptions w))))
     \<and> subscriptions (snd (markExpiredSubscriptionsForRenewal e w))
         = map (\<lambda>s. if sub_paymentProvider s = ''opaybd'' \<and> sub_status s = ''active''
                        \<and> sub_renewalRequired s = Some False \<and> sub_currentPeriodEnd s < clock_now e
                     then s\<lparr>sub_renewalRequired := Some True, sub_updatedAt := clock_now e\<rparr>
                     else s)
             (subscriptions w)
     \<and> users (snd (markExpiredSubscriptionsForRenewal e w)) = users w
     \<and> paymentHistory (snd (markExpiredSubscriptionsForRenewal e w)) = paymentHistory w
     \<and> pricingPlans (snd (markExpiredSubscriptionsForRenewal e w)) = pricingPlans w
     \<and> markExpiredSubscriptionsForRenewal e2 (snd (markExpiredSubscriptionsForRenewal e w))
         = (Inr 0, snd (markExpiredSubscriptionsForRenewal e w))"
proof -
  let ?w' = "snd (markExpiredSubscriptionsForRenewal e w)"
  have s: "subscriptions ?w' = map (flagForRenewal (clock_now e)) (subscriptions w)"
    by (rule mark_subscriptions)
  have none: "filter (expired (clock_now e2)) (subscriptions ?w') = []"
    unfolding s by (rule filter_after_flag[OF assms])
  have again: "markExpiredSubscriptionsForRenewal e2 ?w' = (Inr 0, ?w')"
    using none by (rule mark_nothing)
  have other: "users ?w' = users w" "paymentHistory ?w' = paymentHistory w" "pricingPlans ?w' = pricingPlans w"
    by (simp_all add: markExpiredSubscriptionsForRenewal_def Let_def console_out_def)
  have f: "flagForRenewal (clock_now e)
      = (\<lambda>s. if sub_paymentProvider s = ''opaybd'' \<and> sub_status s = ''active''
                        \<and> sub_renewalRequired s = Some False \<and> sub_currentPeriodEnd s < clock_now e
                     then s\<lparr>sub_renewalRequired := Some True, sub_updatedAt := clock_now e\<rparr>
                     else s)"
    by (rule ext) (simp add: flagForRenewal_def expired_def)
  show ?thesis
    apply (intro conjI)
    subgoal by (rule mark_count)
    subgoal unfolding s f by (rule refl)
    subgoal by (rule other)
    subgoal by (rule other)
    subgoal by (rule other)
    subgoal by (rule again)
    done
qed

theorem markExpired_flags_exactly_witness:
  "fst (markExpiredSubscriptionsForRenewal (ex_env ''COMPLETED'' MetaMissing)
          (ex_world\<lparr>subscriptions := [ex_sub, ex_sub\<lparr>sub_id := ''s2'', sub_currentPeriodEnd := 1700259200000\<rparr>]\<rparr>))
     = Inr 1
   \<and> subscriptions (snd (markExpiredSubscriptionsForRenewal (ex_env ''COMPLETED'' MetaMissing)
          (ex_world\<lparr>subscriptions := [ex_sub, ex_sub\<lparr>sub_id := ''s2'', sub_currentPeriodEnd := 1700259200000\<rparr>]\<rparr>)))
     = [ex_sub\<lparr>sub_renewalRequired := Some True, sub_updatedAt := 1700000000000\<rparr>,
        ex_sub\<lparr>sub_id := ''s2'', sub_currentPeriodEnd := 1700259200000\<rparr>]
   \<and> fst (markExpiredSubscriptionsForRenewal (ex_env ''COMPLETED'' MetaMissing)
        (snd (markExpiredSubscriptionsForRenewal (ex_env ''COMPLETED'' MetaMissing)
          (ex_world\<lparr>subscriptions := [ex_sub, ex_sub\<lparr>sub_id := ''s2'', sub_currentPeriodEnd := 1700259200000\<rparr>]\<rparr>))))
     = Inr 0"
proof -
  let ?e = "ex_env ''COMPLETED'' MetaMissing"
  let ?s2 = "ex_sub\<lparr>sub_id := ''s2'', sub_currentPeriodEnd := 1700259200000\<rparr>"
  let ?w = "ex_world\<lparr>subscriptions := [ex_sub, ?s2]\<rparr>"
  have n: "clock_now ?e = 1700000000000" by (simp add: ex_env_def)
  have sw: "subscriptions ?w = [ex_sub, ?s2]" by simp
  have x1: "expired 1700000000000 ex_sub" by (simp add: expired_def ex_sub_def)
  have x2: "\<not> expired 1700000000000 ?s2"
    by (simp add: expired_def ex_sub_def)
  have y1: "sub_paymentProvider ex_sub = ''opaybd'' \<and> sub_status ex_sub = ''active''
      \<and> sub_renewalRequired ex_sub = Some False \<and> sub_currentPeriodEnd ex_sub < 1700000000000"
    by (simp add: ex_sub_def)
  have y2: "\<not> (sub_currentPeriodEnd ?s2 < 1700000000000)"
    by simp
  have h: "\<forall>s\<in>set (subscriptions ?w). expired (clock_now ?e) s \<longrightarrow> expired (clock_now ?e) s"
    by simp
  have a: "fst (markExpiredSubscriptionsForRenewal ?e ?w) = Inr 1"
    using markExpired_flags_exactly[OF h, THEN conjunct1] x1 x2 unfolding sw n by simp
  have l: "subscriptions (snd (markExpiredSubscriptionsForRenewal ?e ?w))
     = [ex_sub\<lparr>sub_renewalRequired := Some True, sub_updatedAt := 1700000000000\<rparr>, ?s2]"
    using markExpired_flags_exactly[OF h, THEN conjunct2, THEN conjunct1] y1 y2 unfolding sw n by simp
  have b: "fst (markExpiredSubscriptionsForRenewal ?e (snd (markExpiredSubscriptionsForRenewal ?e ?w))) = Inr 0"
    using markExpired_flags_exactly[OF h, THEN conjunct2, THEN conjunct2, THEN conjunct2, THEN conjunct2, THEN conjunct2]
    by simp
  show ?thesis
    using a l b by (intro conjI)
qed

section \<open>Crediting a verified payment\<close>

lemma find_map_same:
  assumes "\<And>x. P (g x) = P x"
  shows "find P (map g xs) = map_option g (find P xs)"
  by (induction xs) (simp_all add: assms)


lemma find_append_new: "find P xs = None \<Longrightarrow> P y \<Longrightarrow> find P (xs @ [y]) = Some y"
  by (induction xs) (simp_all split: if_splits)














text \<open>The three ways \<open>handlePaymentSuccess\<close> ends once \<open>verifyPayment\<close> has answered.\<close>

lemma handle_rejects:
  assumes "fst (verifyPayment e (cb_transactionId params) w) = Inr v"
    and "v_status v \<noteq> ''COMPLETED'' \<or> \<not> truthy (meta_userId (v_metadata v))
         \<or> \<not> truthy (meta_planTier (v_metadata v))"
  shows "handlePaymentSuccess e params w
         = (Inl (Error [S (if v_status v = ''COMPLETED'' then ''Invalid payment metadata''
                           else ''Payment not completed. Status: '' @ v_status v)]),
            snd (verifyPayment e (cb_transactionId params)
                   (console_out Log [S ''Processing Opaybd payment success:'', S (cb_transactionId params)] w)))"
proof -
  let ?w0 = "console_out Log [S ''Processing Opaybd payment success:'', S (cb_transactionId params)] w"
  let ?r = "verifyPayment e (cb_transactionId params) ?w0"
  have f: "fst ?r = Inr v"
    using assms(1) verifyPayment_fst[of e "cb_transactionId params" ?w0 w] by simp
  obtain a b where r: "?r = (a, b)" by (cases ?r)
  with f have a: "a = Inr v" by simp
  show ?thesis
    using assms(2) unfolding handlePaymentSuccess_def Let_def r a by auto
qed

lemma handle_rejects_tables:
  assumes "fst (verifyPayment e (cb_transactionId params) w) = Inr v"
    and "v_status v \<noteq> ''COMPLETED'' \<or> \<not> truthy (meta_userId (v_metadata v))
         \<or> \<not> truthy (meta_planTier (v_metadata v))"
  shows "users (snd (handlePaymentSuccess e params w)) = users w
         \<and> subscriptions (snd (handlePaymentSuccess e params w)) = subscriptions w
         \<and> paymentHistory (snd (handlePaymentSuccess e params w)) = paymentHistory w
         \<and> pricingPlans (snd (handlePaymentSuccess e params w)) = pricingPlans w
         \<and> usageTracking (snd (handlePaymentSuccess e params w)) = usageTracking w"
proof -
  let ?w0 = "console_out Log [S ''Processing Opaybd payment success:'', S (cb_transactionId params)] w"
  have w0: "users ?w0 = users w" "subscriptions ?w0 = subscriptions w"
    "paymentHistory ?w0 = paymentHistory w" "pricingPlans ?w0 = pricingPlans w"
    "usageTracking ?w0 = usageTracking w"
    by (simp_all add: console_out_def)
  show ?thesis
    unfolding handle_rejects[OF assms] snd_conv
    using verifyPayment_frame[of e "cb_transactionId params" ?w0] by (simp only: w0)
qed






text \<open>
  C10, as amended. When the metadata of the verification result has no truthy
  \<open>userId\<close> or no truthy \<open>planTier\<close> (a string that \<open>JSON.parse\<close> rejected and
  \<open>verifyPayment\<close> left in place has neither), \<open>handlePaymentSuccess\<close> throws and no
  table changes. What it throws is \<open>Invalid payment metadata\<close> when the status is
  \<open>COMPLETED\<close>; with any other status the earlier status check throws first.
\<close>

theorem handlePaymentSuccess_invalid_metadata:
  assumes "fst (verifyPayment e (cb_transactionId params) w) = Inr v"
    and "(\<exists>s. v_metadata v = MetaString s) \<or> \<not> truthy (meta_userId (v_metadata v))
         \<or> \<not> truthy (meta_planTier (v_metadata v))"
  shows "fst (handlePaymentSuccess e params w)
           = Inl (Error [S (if v_status v = ''COMPLETED'' then ''Invalid payment metadata''
                            else ''Payment not completed. Status: '' @ v_status v)])
         \<and> users (snd (handlePaymentSuccess e params w)) = users w
         \<and> subscriptions (snd (handlePaymentSuccess e params w)) = subscriptions w
         \<and> paymentHistory (snd (handlePaymentSuccess e params w)) = paymentHistory w
         \<and> pricingPlans (snd (handlePaymentSuccess e params w)) = pricingPlans w
         \<and> usageTracking (snd (handlePaymentSuccess e params w)) = usageTracking w"
proof -
  have l: "\<not> truthy (meta_userId (v_metadata v)) \<or> \<not> truthy (meta_planTier (v_metadata v))"
    using assms(2) by (auto simp: meta_userId_def truthy_def)
  then have c: "v_status v \<noteq> ''COMPLETED'' \<or> \<not> truthy (meta_userId (v_metadata v))
         \<or> \<not> truthy (meta_planTier (v_metadata v))"
    by blast
  show ?thesis
    using handle_rejects[OF assms(1) c] handle_rejects_tables[OF assms(1) c] by simp
qed

theorem handlePaymentSuccess_invalid_metadata_witness:
  "fst (verifyPayment (ex_env ''COMPLETED'' (MetaString ''{bad'')) (cb_transactionId ex_params) ex_world)
     = Inr \<lparr>v_status = ''COMPLETED'', v_cus_name = ''Rina'', v_cus_email = ''rina@example.com'',
            v_amount = ''500'', v_transaction_id = ''tx1'', v_payment_method = ''bKash'',
            v_metadata = MetaString ''{bad''\<rparr>
   \<and> fst (handlePaymentSuccess (ex_env ''COMPLETED'' (MetaString ''{bad'')) ex_params ex_world)
       = Inl (Error [S ''Invalid payment metadata''])
   \<and> users (snd (handlePaymentSuccess (ex_env ''COMPLETED'' (MetaString ''{bad'')) ex_params ex_world)) = [ex_user]
   \<and> subscriptions (snd (handlePaymentSuccess (ex_env ''COMPLETED'' (MetaString ''{bad'')) ex_params ex_world)) = []
   \<and> paymentHistory (snd (handlePaymentSuccess (ex_env ''COMPLETED'' (MetaString ''{bad'')) ex_params ex_world)) = []"
proof -
  have t: "cb_transactionId ex_params = ''tx1''"
    by (simp add: ex_params_def)
  have v: "fst (verifyPayment (ex_env ''COMPLETED'' (MetaString ''{bad'')) (cb_transactionId ex_params) ex_world)
     = Inr \<lparr>v_status = ''COMPLETED'', v_cus_name = ''Rina'', v_cus_email = ''rina@example.com'',
            v_amount = ''500'', v_transaction_id = ''tx1'', v_payment_method = ''bKash'',
            v_metadata = MetaString ''{bad''\<rparr>"
    unfolding t by (rule ex_verifyPayment)
  show ?thesis
    using handlePaymentSuccess_invalid_metadata[OF v] v by (simp add: ex_world_def)
qed

text \<open>
  C10 as it was stated fails where the status is not \<open>COMPLETED\<close>: the gateway answers
  \<open>ERROR\<close> with metadata that did not parse, and the error thrown is the one of the
  status check, not \<open>Invalid payment metadata\<close>.
\<close>

theorem handlePaymentSuccess_invalid_metadata_counterexample:
  "fst (verifyPayment (ex_env ''ERROR'' (MetaString ''{bad'')) (cb_transactionId ex_params) ex_world)
     = Inr \<lparr>v_status = ''ERROR'', v_cus_name = ''Rina'', v_cus_email = ''rina@example.com'',
            v_amount = ''500'', v_transaction_id = ''tx1'', v_payment_method = ''bKash'',
            v_metadata = MetaString ''{bad''\<rparr>
   \<and> \<not> truthy (meta_userId (MetaString ''{bad''))
   \<and> fst (handlePaymentSuccess (ex_env ''ERROR'' (MetaString ''{bad'')) ex_params ex_world)
       = Inl (Error [S ''Payment not completed. Status: ERROR''])
   \<and> fst (handlePaymentSuccess (ex_env ''ERROR'' (MetaString ''{bad'')) ex_params ex_world)
       \<noteq> Inl (Error [S ''Invalid payment metadata''])"
proof -
  have t: "cb_transactionId ex_params = ''tx1''"
    by (simp add: ex_params_def)
  have v: "fst (verifyPayment (ex_env ''ERROR'' (MetaString ''{bad'')) (cb_transactionId ex_params) ex_world)
     = Inr \<lparr>v_status = ''ERROR'', v_cus_name = ''Rina'', v_cus_email = ''rina@example.com'',
            v_amount = ''500'', v_transaction_id = ''tx1'', v_payment_method = ''bKash'',
            v_metadata = MetaString ''{bad''\<rparr>"
    unfolding t by (rule ex_verifyPayment)
  have h: "fst (handlePaymentSuccess (ex_env ''ERROR'' (MetaString ''{bad'')) ex_params ex_world)
       = Inl (Error [S ''Payment not completed. Status: ERROR''])"
    using handle_rejects[OF v] by simp
  show ?thesis
    using v h by (simp add: meta_userId_def truthy_def)
qed

section \<open>The payment router\<close>

lemma isConfigured_iff:
  "isConfigured e = (\<exists>k. getOpaySettings e = Inr \<lparr>apiKey = Some k\<rparr> \<and> k \<noteq> [])"
proof (cases "getOpaySettings e")
  case (Inl err)
  then show ?thesis by (simp add: isConfigured_def)
next
  case (Inr st)
  obtain k where st: "st = \<lparr>apiKey = k\<rparr>" by (cases st) simp
  show ?thesis
    by (cases k) (simp_all add: isConfigured_def Inr st truthy_def)
qed

text \<open>
  C4. With \<open>opaybd\<close> as the active provider and the gateway not configured (the
  settings store fails, or holds no API key or an empty one), \<open>createCheckoutSession\<close>
  throws the configuration error that names the setup step. Nothing but its first
  console line has happened: no request went out and no table changed.
\<close>

theorem createCheckoutSession_unconfigured:
  assumes "getActivePaymentProvider e = ''opaybd''" and "\<not> isConfigured e"
  shows "createCheckoutSession stripe e params w
         = (Inl (Error [S ''Opaybd is selected but not configured. Please configure Opaybd credentials in Admin > Payment Methods.'']),
            console_out Log [S ''Creating checkout session with provider: opaybd''] w)
     \<and> requests (snd (createCheckoutSession stripe e params w)) = requests w
     \<and> users (snd (createCheckoutSession stripe e params w)) = users w
     \<and> subscriptions (snd (createCheckoutSession stripe e params w)) = subscriptions w
     \<and> paymentHistory (snd (createCheckoutSession stripe e params w)) = paymentHistory w"
  using assms by (simp add: createCheckoutSession_def Let_def console_out_def)

theorem createCheckoutSession_unconfigured_witness:
  "\<not> isConfigured ex_env_unconfigured
   \<and> fst (createCheckoutSession ex_stripe ex_env_unconfigured ex_checkout ex_world)
       = Inl (Error [S ''Opaybd is selected but not configured. Please configure Opaybd credentials in Admin > Payment Methods.''])
   \<and> requests (snd (createCheckoutSession ex_stripe ex_env_unconfigured ex_checkout ex_world)) = []"
proof -
  have p: "getActivePaymentProvider ex_env_unconfigured = ''opaybd''"
    by (simp add: ex_env_unconfigured_def ex_env_def)
  have c: "\<not> isConfigured ex_env_unconfigured"
    by (simp add: isConfigured_def ex_env_unconfigured_def truthy_def)
  note t = createCheckoutSession_unconfigured[OF p c, of ex_stripe ex_checkout ex_world]
  have a: "fst (createCheckoutSession ex_stripe ex_env_unconfigured ex_checkout ex_world)
       = Inl (Error [S ''Opaybd is selected but not configured. Please configure Opaybd credentials in Admin > Payment Methods.''])"
    using t[THEN conjunct1] by simp
  have b: "requests (snd (createCheckoutSession ex_stripe ex_env_unconfigured ex_checkout ex_world)) = []"
    using t[THEN conjunct2, THEN conjunct1] by (simp add: ex_world_def)
  show ?thesis
    using a b c by (intro conjI)
qed

text \<open>What the router returns once \<open>createPayment\<close> has returned.\<close>

lemma createCheckoutSession_opaybd:
  assumes "getActivePaymentProvider e = ''opaybd''" and "isConfigured e"
    and "fst (createPayment e
                \<lparr>p_userId = ck_userId params,
                 p_planId = ck_planId params,
                 p_priceId = ck_priceId params,
                 p_successUrl = splitHead ''/settings/billing'' (ck_successUrl params) @ ''/api/opaybd/callback'',
                 p_cancelUrl = splitHead ''/settings/billing'' (ck_successUrl params)
                               @ ''/settings/billing?canceled=true&provider=opaybd''\<rparr>
                (console_out Log [S ''Creating checkout session with provider: opaybd''] w)) = Inr d"
  shows "fst (createCheckoutSession stripe e params w)
         = Inr \<lparr>provider = ''opaybd'', clientSecret = None, sessionId = None,
                paymentUrl = c_payment_url d\<rparr>"
proof -
  let ?r = "createPayment e
                \<lparr>p_userId = ck_userId params,
                 p_planId = ck_planId params,
                 p_priceId = ck_priceId params,
                 p_successUrl = splitHead ''/settings/billing'' (ck_successUrl params) @ ''/api/opaybd/callback'',
                 p_cancelUrl = splitHead ''/settings/billing'' (ck_successUrl params)
                               @ ''/settings/billing?canceled=true&provider=opaybd''\<rparr>
                (console_out Log [S ''Creating checkout session with provider: opaybd''] w)"
  obtain v where r: "?r = (Inr d, v)"
    using assms(3) by (cases ?r) simp
  show ?thesis
    by (simp add: createCheckoutSession_def Let_def assms(1,2) r)
qed

text \<open>A payment creation for the example user and plan, answered with a reply whose
  status is truthy.\<close>

lemma ex_createPayment:
  assumes "getHeaders e = Inr hs" and "URL_origin e s = Some origin"
    and "\<And>hs b. fetch_create e hs b
           = Inr \<lparr>resp_ok = True, resp_status = 200, resp_text = [], resp_json = Inr d\<rparr>"
    and "c_status d"
  shows "fst (createPayment e
                \<lparr>p_userId = ''u1'', p_planId = ''plan1'', p_priceId = pr, p_successUrl = s,
                 p_cancelUrl = c\<rparr>
                (console_out l m (ex_world\<lparr>pricingPlans := [ex_plan]\<rparr>))) = Inr d"
  by (simp add: createPayment_def assms Let_def console_out_def ex_world_def ex_user_def ex_plan_def)

text \<open>
  C5, as amended. With any active provider other than \<open>opaybd\<close> the router calls
  Stripe with the caller's URLs as they are. A failure of Stripe is thrown on;
  a session gives \<open>provider = stripe\<close>, its id as \<open>sessionId\<close>, no \<open>paymentUrl\<close>, and
  as \<open>clientSecret\<close> the session's client secret when it has a non-empty one and
  \<open>undefined\<close> otherwise. With \<open>opaybd\<close>, whatever the router returns has
  \<open>provider = opaybd\<close>, no \<open>clientSecret\<close> and no \<open>sessionId\<close>; whenever the gateway is
  configured and \<open>createPayment\<close> returns, the router returns, and its \<open>paymentUrl\<close> is
  the \<open>payment_url\<close> of the gateway's reply as it came: \<open>undefined\<close> when the reply
  has none.
\<close>

theorem createCheckoutSession_shape:
  "(getActivePaymentProvider e \<noteq> ''opaybd'' \<longrightarrow>
      fst (createCheckoutSession stripe e params w)
      = (case Stripe_createCheckoutSession stripe (ck_userId params) (ck_priceId params)
                (ck_successUrl params) (ck_cancelUrl params) of
           Inl err \<Rightarrow> Inl err
         | Inr session \<Rightarrow>
             Inr \<lparr>provider = ''stripe'',
                  clientSecret = (if truthy (client_secret session) then client_secret session else None),
                  sessionId = Some (session_id session),
                  paymentUrl = None\<rparr>))
   \<and> (getActivePaymentProvider e = ''opaybd'' \<longrightarrow>
        (\<forall>r. fst (createCheckoutSession stripe e params w) = Inr r \<longrightarrow>
           provider r = ''opaybd'' \<and> clientSecret r = None \<and> sessionId r = None)
        \<and> (\<forall>d. isConfigured e
               \<and> fst (createPayment e
                        \<lparr>p_userId = ck_userId params,
                         p_planId = ck_planId params,
                         p_priceId = ck_priceId params,
                         p_successUrl = splitHead ''/settings/billing'' (ck_successUrl params) @ ''/api/opaybd/callback'',
                         p_cancelUrl = splitHead ''/settings/billing'' (ck_successUrl params)
                                       @ ''/settings/billing?canceled=true&provider=opaybd''\<rparr>
                        (console_out Log [S ''Creating checkout session with provider: opaybd''] w)) = Inr d
             \<longrightarrow> fst (createCheckoutSession stripe e params w)
                 = Inr \<lparr>provider = ''opaybd'', clientSecret = None, sessionId = None,
                        paymentUrl = c_payment_url d\<rparr>))"
  by (simp add: createCheckoutSession_def Let_def split: prod.splits sum.splits)

theorem createCheckoutSession_shape_witness:
  "fst (createCheckoutSession ex_stripe ex_env_stripe ex_checkout ex_world)
     = Inr \<lparr>provider = ''stripe'', clientSecret = Some ''cs_secret_1'', sessionId = Some ''cs_1'',
            paymentUrl = None\<rparr>
   \<and> fst (createCheckoutSession ex_stripe (ex_env ''COMPLETED'' MetaMissing) ex_checkout
            (ex_world\<lparr>pricingPlans := [ex_plan]\<rparr>))
     = Inr \<lparr>provider = ''opaybd'', clientSecret = None, sessionId = None,
            paymentUrl = Some ''https://pay.example/p/1''\<rparr>"
proof -
  let ?e = "ex_env ''COMPLETED'' MetaMissing"
  let ?w = "ex_world\<lparr>pricingPlans := [ex_plan]\<rparr>"
  let ?d = "\<lparr>c_status = True, c_message = Some ''ok'', c_payment_url = Some ''https://pay.example/p/1''\<rparr>"
  have s: "getActivePaymentProvider ex_env_stripe \<noteq> ''opaybd''"
    by (simp add: ex_env_stripe_def ex_env_def)
  have a: "fst (createCheckoutSession ex_stripe ex_env_stripe ex_checkout ex_world)
     = Inr \<lparr>provider = ''stripe'', clientSecret = Some ''cs_secret_1'', sessionId = Some ''cs_1'',
            paymentUrl = None\<rparr>"
    using createCheckoutSession_shape[of ex_env_stripe ex_stripe ex_checkout ex_world, THEN conjunct1] s
    by (simp add: ex_stripe_def truthy_def)
  have p: "getActivePaymentProvider ?e = ''opaybd''"
    by (simp add: ex_env_def)
  have c: "isConfigured ?e"
    by (simp add: isConfigured_def ex_env_def truthy_def)
  have hs: "getHeaders ?e = Inr [(''Content-Type'', ''application/json''), (''API-KEY'', ''k'')]"
    by (simp add: getHeaders_def ex_env_def)
  have uo: "URL_origin ?e u = Some ''https://app.example''" for u
    by (simp add: ex_env_def)
  have fc: "fetch_create ?e hs b
       = Inr \<lparr>resp_ok = True, resp_status = 200, resp_text = [], resp_json = Inr ?d\<rparr>" for hs b
    by (simp add: ex_env_def ex_created_def)
  have ck: "ck_userId ex_checkout = ''u1''" "ck_planId ex_checkout = ''plan1''"
    by (simp_all add: ex_checkout_def)
  have d: "fst (createPayment ?e
                        \<lparr>p_userId = ck_userId ex_checkout,
                         p_planId = ck_planId ex_checkout,
                         p_priceId = ck_priceId ex_checkout,
                         p_successUrl = splitHead ''/settings/billing'' (ck_successUrl ex_checkout) @ ''/api/opaybd/callback'',
                         p_cancelUrl = splitHead ''/settings/billing'' (ck_successUrl ex_checkout)
                                       @ ''/settings/billing?canceled=true&provider=opaybd''\<rparr>
                        (console_out Log [S ''Creating checkout session with provider: opaybd''] ?w))
           = Inr ?d"
    unfolding ck by (rule ex_createPayment[OF hs uo fc]) simp
  have b: "fst (createCheckoutSession ex_stripe ?e ex_checkout ?w)
     = Inr \<lparr>provider = ''opaybd'', clientSecret = None, sessionId = None,
            paymentUrl = Some ''https://pay.example/p/1''\<rparr>"
    using createCheckoutSession_shape[of ?e ex_stripe ex_checkout ?w, THEN conjunct2] p c d
    by simp
  show ?thesis
    using a b by (intro conjI)
qed

text \<open>
  C5 as it was stated fails on both sides. A Stripe session that carries no client
  secret gives a result with a \<open>sessionId\<close> and no \<open>clientSecret\<close>. A gateway reply
  whose status is truthy and that has no \<open>payment_url\<close> passes the only check of
  \<open>createPayment\<close>, and the router returns a result without \<open>paymentUrl\<close>.
\<close>

theorem createCheckoutSession_shape_counterexample:
  "getActivePaymentProvider ex_env_stripe \<noteq> ''opaybd''
   \<and> fst (createCheckoutSession ex_stripe_hosted ex_env_stripe ex_checkout ex_world)
     = Inr \<lparr>provider = ''stripe'', clientSecret = None, sessionId = Some ''cs_2'', paymentUrl = None\<rparr>
   \<and> getActivePaymentProvider ex_env_bare = ''opaybd''
   \<and> fst (createCheckoutSession ex_stripe ex_env_bare ex_checkout (ex_world\<lparr>pricingPlans := [ex_plan]\<rparr>))
     = Inr \<lparr>provider = ''opaybd'', clientSecret = None, sessionId = None, paymentUrl = None\<rparr>"
proof -
  let ?w = "ex_world\<lparr>pricingPlans := [ex_plan]\<rparr>"
  let ?d = "\<lparr>c_status = True, c_message = Some ''ok'', c_payment_url = None\<rparr>"
  have s: "getActivePaymentProvider ex_env_stripe \<noteq> ''opaybd''"
    by (simp add: ex_env_stripe_def ex_env_def)
  have a: "fst (createCheckoutSession ex_stripe_hosted ex_env_stripe ex_checkout ex_world)
     = Inr \<lparr>provider = ''stripe'', clientSecret = None, sessionId = Some ''cs_2'', paymentUrl = None\<rparr>"
    by (simp add: createCheckoutSession_def Let_def ex_env_stripe_def ex_env_def ex_stripe_hosted_def
        truthy_def)
  have p: "getActivePaymentProvider ex_env_bare = ''opaybd''"
    by (simp add: ex_env_bare_def ex_env_def)
  have c: "isConfigured ex_env_bare"
    by (simp add: isConfigured_def ex_env_bare_def ex_env_def truthy_def)
  have hs: "getHeaders ex_env_bare = Inr [(''Content-Type'', ''application/json''), (''API-KEY'', ''k'')]"
    by (simp add: getHeaders_def ex_env_bare_def ex_env_def)
  have uo: "URL_origin ex_env_bare u = Some ''https://app.example''" for u
    by (simp add: ex_env_bare_def ex_env_def)
  have fc: "fetch_create ex_env_bare hs b
       = Inr \<lparr>resp_ok = True, resp_status = 200, resp_text = [], resp_json = Inr ?d\<rparr>" for hs b
    by (simp add: ex_env_bare_def ex_created_bare_def)
  have ck: "ck_userId ex_checkout = ''u1''" "ck_planId ex_checkout = ''plan1''"
    by (simp_all add: ex_checkout_def)
  have d: "fst (createPayment ex_env_bare
                        \<lparr>p_userId = ck_userId ex_checkout,
                         p_planId = ck_planId ex_checkout,
                         p_priceId = ck_priceId ex_checkout,
                         p_successUrl = splitHead ''/settings/billing'' (ck_successUrl ex_checkout) @ ''/api/opaybd/callback'',
                         p_cancelUrl = splitHead ''/settings/billing'' (ck_successUrl ex_checkout)
                                       @ ''/settings/billing?canceled=true&provider=opaybd''\<rparr>
                        (console_out Log [S ''Creating checkout session with provider: opaybd''] ?w))
           = Inr ?d"
    unfolding ck by (rule ex_createPayment[OF hs uo fc]) simp
  have b: "fst (createCheckoutSession ex_stripe ex_env_bare ex_checkout ?w)
     = Inr \<lparr>provider = ''opaybd'', clientSecret = None, sessionId = None, paymentUrl = None\<rparr>"
    using createCheckoutSession_opaybd[OF p c d] by simp
  show ?thesis
    using s a p b by (intro conjI)
qed

lemma Opay_getActiveSubscription_snd: "snd (Opay_getActiveSubscription userId w) = w"
  by (simp add: Opay_getActiveSubscription_def split: option.splits)

lemma find_None_Bex: "(find P xs = None) = (\<not> (\<exists>x\<in>set xs. P x))"
  by (induction xs) simp_all

lemma Opay_getActiveSubscription_none:
  "(fst (Opay_getActiveSubscription userId w) = Inr None)
   = (\<not> (\<exists>s\<in>set (subscriptions w). isActiveOpay userId s))"
  unfolding find_None_Bex[symmetric]
  by (simp add: Opay_getActiveSubscription_def split: option.splits)

lemma Opay_getActiveSubscription_Inr:
  "\<exists>r. Opay_getActiveSubscription userId w = (Inr r, w)"
  by (simp add: Opay_getActiveSubscription_def split: option.splits)

text \<open>
  C6. \<open>getActiveSubscription\<close> asks Stripe first. A Stripe subscription is returned
  tagged \<open>stripe\<close>, whatever the subscriptions table holds: the regional gateway is
  not consulted, so a user with active subscriptions under both providers gets the
  Stripe one. Only when Stripe has none is the answer that of the regional gateway,
  tagged \<open>opaybd\<close>. The result is \<open>null\<close> exactly when Stripe has none and no row of the
  user is a regional-gateway subscription with status \<open>active\<close>. The world is unchanged.
\<close>

theorem getActiveSubscription_stripe_first:
  "(\<forall>s. Stripe_getActiveSubscription stripe userId = Some s \<longrightarrow>
      (\<forall>w'. getActiveSubscription stripe userId w'
             = (Inr (Some \<lparr>found = Inl s, found_provider = ''stripe''\<rparr>), w')))
   \<and> (Stripe_getActiveSubscription stripe userId = None \<longrightarrow>
        fst (getActiveSubscription stripe userId w)
        = map_sum id (map_option (\<lambda>opaySubscription.
              \<lparr>found = Inr opaySubscription, found_provider = ''opaybd''\<rparr>))
            (fst (Opay_getActiveSubscription userId w)))
   \<and> (fst (getActiveSubscription stripe userId w) = Inr None
        \<longleftrightarrow> Stripe_getActiveSubscription stripe userId = None
            \<and> \<not> (\<exists>s\<in>set (subscriptions w).
                     sub_userId s = userId \<and> sub_paymentProvider s = ''opaybd''
                     \<and> sub_status s = ''active''))
   \<and> snd (getActiveSubscription stripe userId w) = w"
proof -
  obtain r where r: "Opay_getActiveSubscription userId w = (Inr r, w)"
    using Opay_getActiveSubscription_Inr by blast
  have n: "(r = None) = (\<not> (\<exists>s\<in>set (subscriptions w). sub_userId s = userId
                     \<and> sub_paymentProvider s = ''opaybd'' \<and> sub_status s = ''active''))"
    using Opay_getActiveSubscription_none[of userId w] r by (simp add: isActiveOpay_def)
  show ?thesis
  proof (cases "Stripe_getActiveSubscription stripe userId")
    case None
    then show ?thesis
      using n by (cases r) (simp_all add: getActiveSubscription_def r)
  next
    case (Some s)
    then show ?thesis
      by (simp add: getActiveSubscription_def)
  qed
qed

theorem getActiveSubscription_stripe_first_witness:
  "fst (getActiveSubscription ex_stripe ''u2''
          (ex_world\<lparr>subscriptions := [ex_sub\<lparr>sub_userId := ''u2''\<rparr>]\<rparr>))
     = Inr (Some \<lparr>found = Inl ''sub_stripe_u2'', found_provider = ''stripe''\<rparr>)
   \<and> fst (getActiveSubscription ex_stripe ''u1'' (ex_world\<lparr>subscriptions := [ex_sub]\<rparr>))
     = Inr (Some \<lparr>found = Inr \<lparr>as_subscription = ex_sub, as_plan = None\<rparr>, found_provider = ''opaybd''\<rparr>)
   \<and> fst (getActiveSubscription ex_stripe ''u1'' ex_world) = Inr None"
proof -
  have s2: "Stripe_getActiveSubscription ex_stripe ''u2'' = Some ''sub_stripe_u2''"
    and s1: "Stripe_getActiveSubscription ex_stripe ''u1'' = None"
    by (simp_all add: ex_stripe_def)
  have a: "fst (getActiveSubscription ex_stripe ''u2''
          (ex_world\<lparr>subscriptions := [ex_sub\<lparr>sub_userId := ''u2''\<rparr>]\<rparr>))
     = Inr (Some \<lparr>found = Inl ''sub_stripe_u2'', found_provider = ''stripe''\<rparr>)"
    using getActiveSubscription_stripe_first[of ex_stripe "''u2''", THEN conjunct1] s2 by simp
  have o: "fst (Opay_getActiveSubscription ''u1'' (ex_world\<lparr>subscriptions := [ex_sub]\<rparr>))
     = Inr (Some \<lparr>as_subscription = ex_sub, as_plan = None\<rparr>)"
    by (simp add: Opay_getActiveSubscription_def isActiveOpay_def ex_sub_def ex_world_def)
  have b: "fst (getActiveSubscription ex_stripe ''u1'' (ex_world\<lparr>subscriptions := [ex_sub]\<rparr>))
     = Inr (Some \<lparr>found = Inr \<lparr>as_subscription = ex_sub, as_plan = None\<rparr>, found_provider = ''opaybd''\<rparr>)"
    using getActiveSubscription_stripe_first[of ex_stripe "''u1''" "ex_world\<lparr>subscriptions := [ex_sub]\<rparr>",
        THEN conjunct2, THEN conjunct1] s1 o by simp
  have c: "fst (getActiveSubscription ex_stripe ''u1'' ex_world) = Inr None"
    using getActiveSubscription_stripe_first[of ex_stripe "''u1''" ex_world,
        THEN conjunct2, THEN conjunct2, THEN conjunct1] s1 by (simp add: ex_world_def)
  show ?thesis
    using a b c by (intro conjI)
qed

section \<open>The amount charged and the optional BDT price\<close>

lemma sentAmounts_append: "sentAmounts (xs @ ys) = sentAmounts xs @ sentAmounts ys"
  by (induction xs rule: sentAmounts.induct) simp_all

lemma createPayment_sent:
  assumes "find (\<lambda>u. user_id u = p_userId params) (users w) = Some u"
    and "find (\<lambda>p. plan_id p = p_planId params) (pricingPlans w) = Some plan"
    and "getHeaders e = Inr hs" and "URL_origin e (p_successUrl params) = Some origin"
  shows "requests (snd (createPayment e params w))
         = requests w
           @ [FetchCreate hs
                (createBodyOf u plan params origin
                   (case plan_priceAmountBdt plan of
                      Some bdt \<Rightarrow> of_int bdt / 100
                    | None \<Rightarrow> of_int (plan_priceAmount plan) / 100))]"
  by (cases "plan_priceAmountBdt plan")
    (simp_all add: createPayment_def assms Let_def send_def console_out_def split: sum.splits)

lemma createPayment_warnings:
  assumes "find (\<lambda>u. user_id u = p_userId params) (users w) = Some u"
    and "find (\<lambda>p. plan_id p = p_planId params) (pricingPlans w) = Some plan"
  shows "filter (\<lambda>l. fst l = Warn) (console (snd (createPayment e params w)))
         = filter (\<lambda>l. fst l = Warn) (console w)
           @ (case plan_priceAmountBdt plan of
                Some bdt \<Rightarrow> []
              | None \<Rightarrow>
                  [(Warn, [S (''Plan '' @ plan_name plan @ '' ('' @ plan_tier plan
                              @ '') has no BDT price configured. Using USD amount as fallback.'')])])"
  by (cases "plan_priceAmountBdt plan")
    (simp_all add: createPayment_def assms Let_def send_def console_out_def
       split: sum.splits option.splits)

lemma stripStart_Nil: "stripStart seqs [] = []"
proof -
  have "find (\<lambda>q. q \<noteq> [] \<and> take (length q) [] = q) seqs = None"
    by (induction seqs) auto
  then show ?thesis
    by (simp add: stripStart.simps[of seqs "[]"])
qed

lemma find_single:
  "find (\<lambda>q. q \<noteq> [] \<and> take (length q) (c # s) = q) (map (\<lambda>x. [x]) cs)
   = (if c \<in> set cs then Some [c] else None)"
  by (induction cs) auto

lemma find_append_Some: "find P xs = Some x \<Longrightarrow> find P (xs @ ys) = Some x"
  by (induction xs) (simp_all split: if_splits)

lemma stripStart_blank:
  assumes "\<forall>c\<in>set s. isWhiteSpace c"
  shows "stripStart whiteSpaces s = []"
  using assms
proof (induction s)
  case Nil
  show ?case by (rule stripStart_Nil)
next
  case (Cons c s)
  have c: "c \<in> set asciiWhiteSpace" and s: "\<forall>c\<in>set s. isWhiteSpace c"
    using Cons.prems by (simp_all add: isWhiteSpace_def)
  have "find (\<lambda>q. q \<noteq> [] \<and> take (length q) (c # s) = q) (map (\<lambda>x. [x]) asciiWhiteSpace) = Some [c]"
    unfolding find_single using c by simp
  then have f: "find (\<lambda>q. q \<noteq> [] \<and> take (length q) (c # s) = q) whiteSpaces = Some [c]"
    unfolding whiteSpaces_def by (rule find_append_Some)
  have "stripStart whiteSpaces (c # s) = stripStart whiteSpaces s"
    unfolding stripStart.simps[of whiteSpaces "c # s"] f by simp
  then show ?case
    using Cons.IH[OF s] by simp
qed

lemma trim_blank:
  assumes "\<forall>c\<in>set s. isWhiteSpace c"
  shows "trim s = []"
  unfolding trim_def stripStart_blank[OF assms] by (simp add: stripStart_Nil)

lemma parsePriceAmountBdt_empty:
  assumes "v = None \<or> (\<exists>s. v = Some s \<and> (\<forall>c\<in>set s. isWhiteSpace c))"
  shows "parsePriceAmountBdt e v = Inr None"
proof (cases v)
  case None
  then show ?thesis by (simp add: parsePriceAmountBdt_def truthy_def)
next
  case (Some s)
  with assms have "\<forall>c\<in>set s. isWhiteSpace c" by simp
  then have "trim s = []" by (rule trim_blank)
  then show ?thesis by (simp add: parsePriceAmountBdt_def Some truthy_def orElse_def)
qed

lemma readPlanForm_empty_bdt:
  assumes "readPlanForm e data = Inr f"
    and "data ''priceAmountBdt'' = None
         \<or> (\<exists>s. data ''priceAmountBdt'' = Some s \<and> (\<forall>c\<in>set s. isWhiteSpace c))"
  shows "f_priceAmountBdt f = None"
  using assms(1) unfolding readPlanForm_def parsePriceAmountBdt_empty[OF assms(2)]
  by (auto split: if_splits option.splits)

lemma createPlan_redirect:
  assumes "createPlan e data w = (Redirect c url, w')"
  shows "\<exists>f. readPlanForm e data = Inr f
     \<and> pricingPlans w'
       = pricingPlans w
         @ [\<lparr>plan_id = randomUUID_plan e, plan_name = f_name f, plan_tier = f_tier f,
             plan_stripePriceId = f_stripePriceId f, plan_priceAmount = f_priceAmount f,
             plan_priceAmountBdt = f_priceAmountBdt f, plan_currency = f_currency f,
             plan_billingInterval = f_billingInterval f, plan_textGenerationLimit = f_textLimit f,
             plan_imageGenerationLimit = f_imageLimit f, plan_videoGenerationLimit = f_videoLimit f,
             plan_audioGenerationLimit = f_audioLimit f, plan_features = f_features f,
             plan_isActive = True, plan_createdAt = db_now e, plan_updatedAt = db_now e\<rparr>]"
proof (cases "readPlanForm e data")
  case (Inl failure)
  have "failure \<noteq> Redirect c url"
    using Inl unfolding readPlanForm_def parsePriceAmountBdt_def
    by (auto split: if_splits option.splits sum.splits)
  with assms Inl show ?thesis
    by (simp add: createPlan_def split: if_splits)
next
  case (Inr f)
  with assms show ?thesis
    by (auto simp add: createPlan_def split: if_splits)
qed

lemma updatePlan_redirect:
  assumes "updatePlan e planId data w = (Redirect c url, w')"
  shows "\<exists>f pid. readPlanForm e data = Inr f \<and> planId = Some pid \<and> pid \<noteq> []
     \<and> pricingPlans w' = map (setPlan e f pid) (pricingPlans w)"
proof (cases "readPlanForm e data")
  case (Inl failure)
  have "failure \<noteq> Redirect c url"
    using Inl unfolding readPlanForm_def parsePriceAmountBdt_def
    by (auto split: if_splits option.splits sum.splits)
  with assms Inl show ?thesis
    by (simp add: updatePlan_def split: if_splits)
next
  case (Inr f)
  with assms show ?thesis
    by (cases planId) (auto simp add: updatePlan_def truthy_def orElse_def split: if_splits)
qed

lemma find_append_fresh: "\<not> (\<exists>x\<in>set xs. P x) \<Longrightarrow> P y \<Longrightarrow> find P (xs @ [y]) = Some y"
  by (induction xs) simp_all

lemma plan_id_setPlan: "plan_id (setPlan e f pid p) = plan_id p"
  by (simp add: setPlan_def)

lemma bdt_setPlan: "plan_id p = pid \<Longrightarrow> plan_priceAmountBdt (setPlan e f pid p) = f_priceAmountBdt f"
  by (simp add: setPlan_def)

lemma find_map_plan:
  "find (\<lambda>p. plan_id p = pid) (map (setPlan e f pid) xs)
   = map_option (setPlan e f pid) (find (\<lambda>p. plan_id p = pid) xs)"
  by (induction xs) (simp_all add: plan_id_setPlan)


text \<open>
  C8. When the user and the plan are found, the gateway is configured and the
  success URL parses, \<open>createPayment\<close> sends one payment-creation request, and the
  amount in it is \<open>priceAmountBdt / 100\<close> when the plan has a BDT price and
  \<open>priceAmount / 100\<close> when that is \<open>null\<close>. In the second case, and only then, it
  writes the warning that the plan has no BDT price (it does so as soon as the user
  and the plan are found). A plan form whose BDT price field is missing, empty or white
  space stores \<open>null\<close>: after a \<open>create\<close> that redirects, under a fresh non-empty id,
  and after an \<open>update\<close> of an existing plan that redirects, the \<open>load\<close> of the plan
  reads a plan whose \<open>priceAmountBdt\<close> is \<open>null\<close>, which is not the number 0.
\<close>

theorem createPayment_amount_and_null_bdt:
  "(find (\<lambda>u. user_id u = p_userId params) (users w) = Some u
      \<and> find (\<lambda>p. plan_id p = p_planId params) (pricingPlans w) = Some plan
    \<longrightarrow>
      filter (\<lambda>l. fst l = Warn) (console (snd (createPayment e params w)))
      = filter (\<lambda>l. fst l = Warn) (console w)
        @ (case plan_priceAmountBdt plan of
             Some bdt \<Rightarrow> []
           | None \<Rightarrow>
               [(Warn, [S (''Plan '' @ plan_name plan @ '' ('' @ plan_tier plan
                           @ '') has no BDT price configured. Using USD amount as fallback.'')])])
      \<and> (getHeaders e = Inr hs \<and> URL_origin e (p_successUrl params) = Some origin \<longrightarrow>
           sentAmounts (requests (snd (createPayment e params w)))
           = sentAmounts (requests w)
             @ [case plan_priceAmountBdt plan of
                  Some bdt \<Rightarrow> of_int bdt / 100
                | None \<Rightarrow> of_int (plan_priceAmount plan) / 100]))
   \<and> ((data ''priceAmountBdt'' = None
         \<or> (\<exists>s. data ''priceAmountBdt'' = Some s \<and> (\<forall>c\<in>set s. isWhiteSpace c)))
       \<longrightarrow>
         (createPlan e data w = (Redirect c1 url1, w1)
            \<and> randomUUID_plan e \<noteq> [] \<and> \<not> (\<exists>p\<in>set (pricingPlans w). plan_id p = randomUUID_plan e)
          \<longrightarrow> map_sum id plan_priceAmountBdt (loadPlan (Some (randomUUID_plan e)) w1) = Inr None
              \<and> map_sum id plan_priceAmountBdt (loadPlan (Some (randomUUID_plan e)) w1) \<noteq> Inr (Some 0))
         \<and> (updatePlan e (Some pid) data w = (Redirect c2 url2, w2)
              \<and> (\<exists>p\<in>set (pricingPlans w). plan_id p = pid)
            \<longrightarrow> map_sum id plan_priceAmountBdt (loadPlan (Some pid) w2) = Inr None
                \<and> map_sum id plan_priceAmountBdt (loadPlan (Some pid) w2) \<noteq> Inr (Some 0)))"
proof (intro conjI impI)
  assume a: "find (\<lambda>u. user_id u = p_userId params) (users w) = Some u
      \<and> find (\<lambda>p. plan_id p = p_planId params) (pricingPlans w) = Some plan"
  show "filter (\<lambda>l. fst l = Warn) (console (snd (createPayment e params w)))
      = filter (\<lambda>l. fst l = Warn) (console w)
        @ (case plan_priceAmountBdt plan of
             Some bdt \<Rightarrow> []
           | None \<Rightarrow>
               [(Warn, [S (''Plan '' @ plan_name plan @ '' ('' @ plan_tier plan
                           @ '') has no BDT price configured. Using USD amount as fallback.'')])])"
    using a by (simp add: createPayment_warnings)
  assume b: "getHeaders e = Inr hs \<and> URL_origin e (p_successUrl params) = Some origin"
  show "sentAmounts (requests (snd (createPayment e params w)))
           = sentAmounts (requests w)
             @ [case plan_priceAmountBdt plan of
                  Some bdt \<Rightarrow> of_int bdt / 100
                | None \<Rightarrow> of_int (plan_priceAmount plan) / 100]"
    using a b by (simp add: createPayment_sent sentAmounts_append createBodyOf_def)
next
  assume empty: "data ''priceAmountBdt'' = None
         \<or> (\<exists>s. data ''priceAmountBdt'' = Some s \<and> (\<forall>c\<in>set s. isWhiteSpace c))"
  assume c: "createPlan e data w = (Redirect c1 url1, w1)
            \<and> randomUUID_plan e \<noteq> [] \<and> \<not> (\<exists>p\<in>set (pricingPlans w). plan_id p = randomUUID_plan e)"
  obtain f where f: "readPlanForm e data = Inr f"
    and p: "pricingPlans w1
       = pricingPlans w
         @ [\<lparr>plan_id = randomUUID_plan e, plan_name = f_name f, plan_tier = f_tier f,
             plan_stripePriceId = f_stripePriceId f, plan_priceAmount = f_priceAmount f,
             plan_priceAmountBdt = f_priceAmountBdt f, plan_currency = f_currency f,
             plan_billingInterval = f_billingInterval f, plan_textGenerationLimit = f_textLimit f,
             plan_imageGenerationLimit = f_imageLimit f, plan_videoGenerationLimit = f_videoLimit f,
             plan_audioGenerationLimit = f_audioLimit f, plan_features = f_features f,
             plan_isActive = True, plan_createdAt = db_now e, plan_updatedAt = db_now e\<rparr>]"
    using createPlan_redirect[of e data w c1 url1 w1] c by blast
  have n: "f_priceAmountBdt f = None"
    by (rule readPlanForm_empty_bdt[OF f empty])
  have l: "map_sum id plan_priceAmountBdt (loadPlan (Some (randomUUID_plan e)) w1) = Inr None"
    using c by (simp add: loadPlan_def truthy_def orElse_def p find_append_fresh n)
  show "map_sum id plan_priceAmountBdt (loadPlan (Some (randomUUID_plan e)) w1) = Inr None"
    by (rule l)
  show "map_sum id plan_priceAmountBdt (loadPlan (Some (randomUUID_plan e)) w1) \<noteq> Inr (Some 0)"
    unfolding l by simp
next
  assume empty: "data ''priceAmountBdt'' = None
         \<or> (\<exists>s. data ''priceAmountBdt'' = Some s \<and> (\<forall>c\<in>set s. isWhiteSpace c))"
  assume c: "updatePlan e (Some pid) data w = (Redirect c2 url2, w2)
              \<and> (\<exists>p\<in>set (pricingPlans w). plan_id p = pid)"
  obtain f where f: "readPlanForm e data = Inr f" and pid: "pid \<noteq> []"
    and p: "pricingPlans w2 = map (setPlan e f pid) (pricingPlans w)"
    using updatePlan_redirect[of e "Some pid" data w c2 url2 w2] c by auto
  have n: "f_priceAmountBdt f = None"
    by (rule readPlanForm_empty_bdt[OF f empty])
  obtain p0 where p0: "find (\<lambda>p. plan_id p = pid) (pricingPlans w) = Some p0" and i: "plan_id p0 = pid"
    using c find_None_Bex[of "\<lambda>p. plan_id p = pid" "pricingPlans w"]
    by (cases "find (\<lambda>p. plan_id p = pid) (pricingPlans w)") (auto simp: find_Some_iff)
  have l: "map_sum id plan_priceAmountBdt (loadPlan (Some pid) w2) = Inr None"
    using pid by (simp add: loadPlan_def truthy_def orElse_def p find_map_plan p0 bdt_setPlan[OF i] n)
  show "map_sum id plan_priceAmountBdt (loadPlan (Some pid) w2) = Inr None"
    by (rule l)
  show "map_sum id plan_priceAmountBdt (loadPlan (Some pid) w2) \<noteq> Inr (Some 0)"
    unfolding l by simp
qed

theorem createPayment_amount_and_null_bdt_witness:
  "sentAmounts (requests (snd (createPayment (ex_env ''COMPLETED'' MetaMissing) ex_payment_params
        (ex_world\<lparr>pricingPlans := [ex_plan]\<rparr>)))) = [2500]
   \<and> filter (\<lambda>l. fst l = Warn) (console (snd (createPayment (ex_env ''COMPLETED'' MetaMissing)
        ex_payment_params (ex_world\<lparr>pricingPlans := [ex_plan]\<rparr>)))) = []
   \<and> sentAmounts (requests (snd (createPayment (ex_env ''COMPLETED'' MetaMissing) ex_payment_params
        (ex_world\<lparr>pricingPlans := [ex_plan\<lparr>plan_priceAmountBdt := None\<rparr>]\<rparr>)))) = [19]
   \<and> filter (\<lambda>l. fst l = Warn) (console (snd (createPayment (ex_env ''COMPLETED'' MetaMissing)
        ex_payment_params (ex_world\<lparr>pricingPlans := [ex_plan\<lparr>plan_priceAmountBdt := None\<rparr>]\<rparr>))))
       = [(Warn, [S ''Plan Pro (pro) has no BDT price configured. Using USD amount as fallback.''])]
   \<and> fst (createPlan (ex_env ''COMPLETED'' MetaMissing) ex_form ex_world) = Redirect 303 ''/admin/settings/plans''
   \<and> map_sum id plan_priceAmountBdt
        (loadPlan (Some ''plan-new'') (snd (createPlan (ex_env ''COMPLETED'' MetaMissing) ex_form ex_world)))
       = Inr None
   \<and> fst (updatePlan (ex_env ''COMPLETED'' MetaMissing) (Some ''plan1'') ex_form
            (ex_world\<lparr>pricingPlans := [ex_plan]\<rparr>)) = Redirect 303 ''/admin/settings/plans''
   \<and> map_sum id plan_priceAmountBdt
        (loadPlan (Some ''plan1'')
           (snd (updatePlan (ex_env ''COMPLETED'' MetaMissing) (Some ''plan1'') ex_form
                   (ex_world\<lparr>pricingPlans := [ex_plan]\<rparr>))))
       = Inr None"
proof -
  let ?e = "ex_env ''COMPLETED'' MetaMissing"
  let ?w = "ex_world\<lparr>pricingPlans := [ex_plan]\<rparr>"
  let ?pn = "ex_plan\<lparr>plan_priceAmountBdt := None\<rparr>"
  let ?wn = "ex_world\<lparr>pricingPlans := [?pn]\<rparr>"
  have hs: "getHeaders ?e = Inr [(''Content-Type'', ''application/json''), (''API-KEY'', ''k'')]"
    by (simp add: getHeaders_def ex_env_def)
  have uo: "URL_origin ?e (p_successUrl ex_payment_params) = Some ''https://app.example''"
    by (simp add: ex_env_def)
  have ids: "plan_id ex_plan = ''plan1''" "p_planId ex_payment_params = ''plan1''"
    by (simp_all add: ex_plan_def ex_payment_params_def)
  have u: "find (\<lambda>u. user_id u = p_userId ex_payment_params) (users ?w) = Some ex_user"
    "find (\<lambda>u. user_id u = p_userId ex_payment_params) (users ?wn) = Some ex_user"
    by (simp_all add: ex_world_def ex_user_def ex_payment_params_def)
  have pl: "find (\<lambda>p. plan_id p = p_planId ex_payment_params) (pricingPlans ?w) = Some ex_plan"
    "find (\<lambda>p. plan_id p = p_planId ex_payment_params) (pricingPlans ?wn) = Some ?pn"
    by (simp_all add: ids)
  have rq: "requests ?w = []" "requests ?wn = []" "console ?w = []" "console ?wn = []"
    by (simp_all add: ex_world_def)
  have bdt: "plan_priceAmountBdt ex_plan = Some 250000" "plan_priceAmount ?pn = 1900"
    "plan_name ?pn = ''Pro''" "plan_tier ?pn = ''pro''"
    by (simp_all add: ex_plan_def)
  note t1 = createPayment_amount_and_null_bdt[of ex_payment_params ?w ex_user ex_plan ?e _ _ ex_form,
      THEN conjunct1, rule_format, OF conjI, OF u(1) pl(1)]
  note t0 = createPayment_amount_and_null_bdt[of ex_payment_params ?wn ex_user ?pn ?e _ _ ex_form,
      THEN conjunct1, rule_format, OF conjI, OF u(2) pl(2)]
  have a1: "sentAmounts (requests (snd (createPayment ?e ex_payment_params ?w))) = [2500]"
    using t1[THEN conjunct2, rule_format, OF conjI, OF hs uo] by (simp add: rq bdt)
  have a2: "filter (\<lambda>l. fst l = Warn) (console (snd (createPayment ?e ex_payment_params ?w))) = []"
    using t1[THEN conjunct1] by (simp add: rq bdt)
  have a3: "sentAmounts (requests (snd (createPayment ?e ex_payment_params ?wn))) = [19]"
    using t0[THEN conjunct2, rule_format, OF conjI, OF hs uo] by (simp add: rq bdt)
  have a4: "filter (\<lambda>l. fst l = Warn) (console (snd (createPayment ?e ex_payment_params ?wn)))
       = [(Warn, [S ''Plan Pro (pro) has no BDT price configured. Using USD amount as fallback.''])]"
    using t0[THEN conjunct1] by (simp add: rq bdt)
  have empty: "ex_form ''priceAmountBdt'' = None
         \<or> (\<exists>s. ex_form ''priceAmountBdt'' = Some s \<and> (\<forall>c\<in>set s. isWhiteSpace c))"
    by (simp add: ex_form_def)
  have rf: "readPlanForm ?e ex_form
     = Inr \<lparr>f_name = ''Pro'', f_tier = ''pro'', f_stripePriceId = ''price_pro'', f_priceAmount = 1900,
            f_priceAmountBdt = None, f_currency = ''usd'', f_billingInterval = ''month'',
            f_textLimit = None, f_imageLimit = None, f_videoLimit = None, f_audioLimit = None,
            f_features = [], f_isActive = True\<rparr>"
    by (simp add: readPlanForm_def ex_form_def truthy_def orElse_def parsePriceAmountBdt_def
        parseLimit_def parseFeatures_def ex_env_def trim_def stripStart_Nil)
  have dm: "\<not> isDemoModeEnabled ?e" "randomUUID_plan ?e = ''plan-new''"
    by (simp_all add: ex_env_def)
  have cp: "fst (createPlan ?e ex_form ex_world) = Redirect 303 ''/admin/settings/plans''"
    by (simp add: createPlan_def rf dm)
  have up: "fst (updatePlan ?e (Some ''plan1'') ex_form ?w) = Redirect 303 ''/admin/settings/plans''"
    by (simp add: updatePlan_def rf dm truthy_def)
  have cp': "createPlan ?e ex_form ex_world = (Redirect 303 ''/admin/settings/plans'', snd (createPlan ?e ex_form ex_world))"
    using cp by (metis prod.collapse)
  have up': "updatePlan ?e (Some ''plan1'') ex_form ?w
      = (Redirect 303 ''/admin/settings/plans'', snd (updatePlan ?e (Some ''plan1'') ex_form ?w))"
    using up by (metis prod.collapse)
  have fresh: "randomUUID_plan ?e \<noteq> [] \<and> \<not> (\<exists>p\<in>set (pricingPlans ex_world). plan_id p = randomUUID_plan ?e)"
    by (simp add: dm ex_world_def)
  have ex: "\<exists>p\<in>set (pricingPlans ?w). plan_id p = ''plan1''"
    by (simp add: ids)
  have a5: "map_sum id plan_priceAmountBdt (loadPlan (Some ''plan-new'') (snd (createPlan ?e ex_form ex_world)))
       = Inr None"
    using createPayment_amount_and_null_bdt[of _ ex_world _ _ ?e _ _ ex_form,
        THEN conjunct2, rule_format, OF empty, THEN conjunct1, rule_format, OF conjI, OF cp' fresh]
    by (simp add: dm)
  have a6: "map_sum id plan_priceAmountBdt
        (loadPlan (Some ''plan1'') (snd (updatePlan ?e (Some ''plan1'') ex_form ?w))) = Inr None"
    using createPayment_amount_and_null_bdt[of _ ?w _ _ ?e _ _ ex_form,
        THEN conjunct2, rule_format, OF empty, THEN conjunct2, rule_format, OF conjI, OF up' ex]
    by simp
  show ?thesis
    using a1 a2 a3 a4 cp a5 up a6 by (intro conjI)
qed

section \<open>Usage limits\<close>

lemma isCurrentRow_increment: "isCurrentRow e u (increment c r) = isCurrentRow e u r"
  by (cases c) (simp_all add: isCurrentRow_def increment_def)

lemma counterOf_increment: "counterOf c (increment c r) = counterOf c r + 1"
  by (cases c) (simp_all add: counterOf_def increment_def)

lemma find_Some_holds: "find P xs = Some x \<Longrightarrow> P x"
  by (induction xs) (simp_all split: if_splits)

lemma currentCounter_trackUsage:
  "currentCounter e u c (snd (trackUsage e u c w)) = currentCounter e u c w + 1"
proof (cases "find (isCurrentRow e u) (usageTracking w)")
  case None
  let ?new = "increment c
                \<lparr>usage_userId = u, usage_month = Date_month e (clock_now e),
                 usage_year = Date_year e (clock_now e), usage_textGenerationCount = 0,
                 usage_imageGenerationCount = 0, usage_videoGenerationCount = 0,
                 usage_audioGenerationCount = 0\<rparr>"
  have p: "isCurrentRow e u ?new"
    by (simp add: isCurrentRow_increment) (simp add: isCurrentRow_def)
  have z: "counterOf c ?new = 1"
    by (simp add: counterOf_increment) (cases c; simp add: counterOf_def)
  have "find (isCurrentRow e u) (usageTracking w @ [?new]) = Some ?new"
    using None p by (rule find_append_new)
  then show ?thesis
    using None z by (simp add: currentCounter_def trackUsage_def)
next
  case (Some r)
  let ?g = "\<lambda>r. if isCurrentRow e u r then increment c r else r"
  have g: "\<And>x. isCurrentRow e u (?g x) = isCurrentRow e u x"
    by (simp add: isCurrentRow_increment)
  have "find (isCurrentRow e u) (map ?g (usageTracking w)) = map_option ?g (find (isCurrentRow e u) (usageTracking w))"
    using g by (rule find_map_same)
  then have "find (isCurrentRow e u) (map ?g (usageTracking w)) = Some (increment c r)"
    using Some find_Some_holds[OF Some] by simp
  then show ?thesis
    using Some by (simp add: currentCounter_def trackUsage_def counterOf_increment)
qed

lemma currentCounter_tracked:
  "currentCounter e u c (((\<lambda>w. snd (trackUsage e u c w)) ^^ k) w) = currentCounter e u c w + int k"
  by (induction k) (simp_all add: currentCounter_trackUsage)

lemma checkUsageLimit_cases:
  "checkUsageLimit planLimit e userId c w
   = (if \<exists>limit. planLimit userId c = Some limit \<and> limit \<le> currentCounter e userId c w
      then (Inl (UsageLimitError [S ''usage limit exceeded''] 0), w)
      else (Inr (), w))"
  by (cases "planLimit userId c") (simp_all add: checkUsageLimit_def Let_def)

text \<open>
  C2. \<open>checkUsageLimit\<close> fails exactly when the limit of the user's plan for the
  category is not null and the counter of the current month has reached it; it then
  throws the typed error with remaining quota 0. Otherwise it returns, and in both
  cases the world is the one it got. With a null limit it never fails. Starting from
  a counter of zero and a limit of \<open>n\<close>, it succeeds after each of the first
  \<open>k < n\<close> increments by \<open>trackUsage\<close> in the same month and fails after the
  \<open>n\<close>-th.
\<close>

theorem checkUsageLimit_exceeded_iff:
  "checkUsageLimit planLimit e userId c w
     = (if \<exists>limit. planLimit userId c = Some limit \<and> limit \<le> currentCounter e userId c w
        then (Inl (UsageLimitError [S ''usage limit exceeded''] 0), w)
        else (Inr (), w))
   \<and> (planLimit userId c = None \<longrightarrow> checkUsageLimit planLimit e userId c w = (Inr (), w))
   \<and> (currentCounter e userId c w = 0 \<and> planLimit userId c = Some (int n) \<longrightarrow>
        (\<forall>k<n. fst (checkUsageLimit planLimit e userId c
                      (((\<lambda>w. snd (trackUsage e userId c w)) ^^ k) w)) = Inr ())
        \<and> fst (checkUsageLimit planLimit e userId c
                 (((\<lambda>w. snd (trackUsage e userId c w)) ^^ n) w))
            = Inl (UsageLimitError [S ''usage limit exceeded''] 0))"
proof (intro conjI impI allI)
  show "checkUsageLimit planLimit e userId c w
     = (if \<exists>limit. planLimit userId c = Some limit \<and> limit \<le> currentCounter e userId c w
        then (Inl (UsageLimitError [S ''usage limit exceeded''] 0), w)
        else (Inr (), w))"
    by (rule checkUsageLimit_cases)
next
  assume "planLimit userId c = None"
  then show "checkUsageLimit planLimit e userId c w = (Inr (), w)"
    by (simp add: checkUsageLimit_cases)
next
  fix k
  assume a: "currentCounter e userId c w = 0 \<and> planLimit userId c = Some (int n)" and k: "k < n"
  show "fst (checkUsageLimit planLimit e userId c (((\<lambda>w. snd (trackUsage e userId c w)) ^^ k) w)) = Inr ()"
    using a k by (simp add: checkUsageLimit_cases currentCounter_tracked)
next
  assume a: "currentCounter e userId c w = 0 \<and> planLimit userId c = Some (int n)"
  show "fst (checkUsageLimit planLimit e userId c (((\<lambda>w. snd (trackUsage e userId c w)) ^^ n) w))
            = Inl (UsageLimitError [S ''usage limit exceeded''] 0)"
    using a by (simp add: checkUsageLimit_cases currentCounter_tracked)
qed

theorem checkUsageLimit_exceeded_iff_witness:
  "fst (checkUsageLimit ex_planLimit (ex_env ''COMPLETED'' MetaMissing) ''u1'' Audio
          (((\<lambda>w. snd (trackUsage (ex_env ''COMPLETED'' MetaMissing) ''u1'' Audio w)) ^^ 2) ex_world))
     = Inr ()
   \<and> fst (checkUsageLimit ex_planLimit (ex_env ''COMPLETED'' MetaMissing) ''u1'' Audio
          (((\<lambda>w. snd (trackUsage (ex_env ''COMPLETED'' MetaMissing) ''u1'' Audio w)) ^^ 3) ex_world))
     = Inl (UsageLimitError [S ''usage limit exceeded''] 0)
   \<and> checkUsageLimit ex_planLimit (ex_env ''COMPLETED'' MetaMissing) ''u1'' Text ex_world
     = (Inr (), ex_world)
   \<and> checkUsageLimit ex_planLimit (ex_env ''COMPLETED'' MetaMissing) ''u1'' Video ex_world
     = (Inl (UsageLimitError [S ''usage limit exceeded''] 0), ex_world)"
proof -
  let ?e = "ex_env ''COMPLETED'' MetaMissing"
  have z: "currentCounter ?e ''u1'' Audio ex_world = 0" "currentCounter ?e ''u1'' Video ex_world = 0"
    by (simp_all add: currentCounter_def ex_world_def)
  have l: "ex_planLimit ''u1'' Audio = Some (int 3)" "ex_planLimit ''u1'' Text = None"
    "ex_planLimit ''u1'' Video = Some 0"
    by (simp_all add: ex_planLimit_def)
  note t = checkUsageLimit_exceeded_iff[of ex_planLimit ?e "''u1''" Audio ex_world 3,
      THEN conjunct2, THEN conjunct2, rule_format, OF conjI, OF z(1) l(1)]
  have a: "fst (checkUsageLimit ex_planLimit ?e ''u1'' Audio
          (((\<lambda>w. snd (trackUsage ?e ''u1'' Audio w)) ^^ 2) ex_world)) = Inr ()"
    using t[THEN conjunct1, rule_format, of 2] by simp
  have b: "fst (checkUsageLimit ex_planLimit ?e ''u1'' Audio
          (((\<lambda>w. snd (trackUsage ?e ''u1'' Audio w)) ^^ 3) ex_world))
     = Inl (UsageLimitError [S ''usage limit exceeded''] 0)"
    using t[THEN conjunct2] by simp
  have c: "checkUsageLimit ex_planLimit ?e ''u1'' Text ex_world = (Inr (), ex_world)"
    using checkUsageLimit_exceeded_iff[of ex_planLimit ?e "''u1''" Text ex_world,
      THEN conjunct2, THEN conjunct1] l(2) by simp
  have d: "checkUsageLimit ex_planLimit ?e ''u1'' Video ex_world
     = (Inl (UsageLimitError [S ''usage limit exceeded''] 0), ex_world)"
    using checkUsageLimit_exceeded_iff[of ex_planLimit ?e "''u1''" Video ex_world,
      THEN conjunct1] l(3) z(2) by simp
  show ?thesis
    using a b c d by (intro conjI)
qed

end
